theory Spec2Isabelle
  imports Main "HOL-Library.Sublist"
begin

section \<open>Characters that cannot be written inside a string literal\<close>

abbreviation SQ :: string where "SQ \<equiv> [CHR 0x27]"
abbreviation DQ :: string where "DQ \<equiv> [CHR 0x22]"
abbreviation BT :: string where "BT \<equiv> [CHR 0x60]"
abbreviation BS :: string where "BS \<equiv> [CHR 0x5C]"
abbreviation TAB :: string where "TAB \<equiv> [CHR 0x09]"
abbreviation NL :: string where "NL \<equiv> [CHR 0x0A]"

section \<open>The data model (DMMF as the generators read it)\<close>

text \<open>
  Strings are byte lists; the source's strings are UTF-16, so the model is exact on
  ASCII text. Every record of the DMMF is a record here; the selectors carry a prefix
  (\<open>f_\<close> field, \<open>m_\<close> model, \<open>e_\<close> enum, \<open>v_\<close> enum value, \<open>ix_\<close> unique index,
  \<open>pk_\<close> primary key) because the source reuses \<open>name\<close>, \<open>dbName\<close> and \<open>fields\<close>.
  An optional property (\<open>undefined\<close> or \<open>null\<close>) is an \<open>option\<close>. Properties that no
  generator reads (\<open>isReadOnly\<close>, \<open>hasDefaultValue\<close>, \<open>uniqueFields\<close>) are left out.
\<close>

datatype error = GeneratorError string | Error string | TypeError string

datatype FieldKind = Scalar | Object | Enum | Unsupported

text \<open>A default is a JSON primitive, a list of them, or a call \<open>{name, args}\<close>. Numbers are
  the integers.\<close>

datatype JsPrim = JNum int | JStr string | JBool bool

datatype FieldDefault = DefValue JsPrim | DefList "JsPrim list" | DefCall string "JsPrim list"

record Field =
  f_name :: string
  f_dbName :: "string option"
  f_kind :: FieldKind
  f_type :: string
  f_isRequired :: bool
  f_isList :: bool
  f_isUnique :: bool
  f_isId :: bool
  f_default :: "FieldDefault option"
  f_relationName :: "string option"
  f_relationFromFields :: "string list option"
  f_relationToFields :: "string list option"
  f_relationOnDelete :: "string option"

record UniqueIndex =
  ix_name :: "string option"
  ix_fields :: "string list"

record PrimaryKey =
  pk_name :: "string option"
  pk_fields :: "string list"

record Model =
  m_name :: string
  m_dbName :: "string option"
  m_fields :: "Field list"
  m_primaryKey :: "PrimaryKey option"
  m_uniqueIndexes :: "UniqueIndex list"

record EnumValue =
  v_name :: string
  v_dbName :: "string option"

record DatamodelEnum =
  e_name :: string
  e_dbName :: "string option"
  e_values :: "EnumValue list"

text \<open>The generator options. \<open>o_models\<close> and \<open>o_enums\<close> are \<open>options.dmmf.datamodel\<close>.
  \<open>o_datamodel\<close> stands for the schema text \<open>options.datamodel\<close> as the external parser
  (\<open>createPrismaSchemaBuilder\<close> of prisma-ast) presents it to \<open>findByType\<close>: the model
  blocks in order, each with its field properties, each with its attributes (\<open>group\<close> is
  \<open>db\<close> for a native-type attribute such as \<open>@db.Timestamptz\<close>).\<close>

record AstAttribute =
  a_group :: "string option"
  a_name :: string

record AstField =
  af_name :: string
  af_attributes :: "AstAttribute list option"

record AstModel =
  am_name :: string
  am_properties :: "AstField list"

record GeneratorOptions =
  o_models :: "Model list"
  o_enums :: "DatamodelEnum list"
  o_datamodel :: "AstModel list"

section \<open>JavaScript built-ins used by the source\<close>

text \<open>\<open>a ?? b\<close> on an optional string.\<close>

definition nullish :: "string option \<Rightarrow> string \<Rightarrow> string" where
  "nullish a b = (case a of None \<Rightarrow> b | Some x \<Rightarrow> x)"

text \<open>A template literal prints \<open>undefined\<close> for a missing value.\<close>

definition tpl :: "string option \<Rightarrow> string" where
  "tpl a = (case a of None \<Rightarrow> ''undefined'' | Some x \<Rightarrow> x)"

text \<open>Truthiness of an optional string: missing and empty are falsy.\<close>

definition truthy :: "string option \<Rightarrow> bool" where
  "truthy a = (case a of None \<Rightarrow> False | Some x \<Rightarrow> x \<noteq> [])"

text \<open>\<open>Array.prototype.join\<close>.\<close>

fun join :: "string \<Rightarrow> string list \<Rightarrow> string" where
  "join sep [] = []"
| "join sep [x] = x"
| "join sep (x # y # ys) = x @ sep @ join sep (y # ys)"

text \<open>\<open>Array.prototype.sort\<close> with a comparator: the sort is stable, which for a consistent
  comparator fixes the result; it is written as an insertion sort. The comparator is
  \<open>String.prototype.localeCompare\<close> everywhere in the source; its result depends on the
  host's collation tables, so the model takes it as the parameter \<open>lc\<close>.\<close>

fun array_insert :: "('a \<Rightarrow> 'a \<Rightarrow> int) \<Rightarrow> 'a \<Rightarrow> 'a list \<Rightarrow> 'a list" where
  "array_insert cmp x [] = [x]"
| "array_insert cmp x (y # ys) =
     (if cmp x y \<le> 0 then x # y # ys else y # array_insert cmp x ys)"

definition array_sort :: "('a \<Rightarrow> 'a \<Rightarrow> int) \<Rightarrow> 'a list \<Rightarrow> 'a list" where
  "array_sort cmp xs = foldr (array_insert cmp) xs []"

text \<open>A comparator for the concrete inputs below: strings by their code units. On names
  that differ at a letter of the same case it agrees with every collation.\<close>

fun codeUnitCompare :: "string \<Rightarrow> string \<Rightarrow> int" where
  "codeUnitCompare [] [] = 0"
| "codeUnitCompare [] (y # ys) = -1"
| "codeUnitCompare (x # xs) [] = 1"
| "codeUnitCompare (x # xs) (y # ys) =
     (if of_char x < (of_char y :: nat) then -1
      else if of_char y < (of_char x :: nat) then 1
      else codeUnitCompare xs ys)"

section \<open>Many-to-many synthesis (extract-many-to-many-models)\<close>

text \<open>
  The source mutates the field objects of the cloned model list in place, through the
  references it collected with \<open>flatMap\<close>. The model list is therefore the store, and a
  field reference is the position (model index, field index) of the field in it.
\<close>

type_synonym FieldRef = "nat \<times> nat"

definition fieldAt :: "Model list \<Rightarrow> FieldRef \<Rightarrow> Field" where
  "fieldAt models r = m_fields (models ! fst r) ! snd r"

definition setField :: "Model list \<Rightarrow> FieldRef \<Rightarrow> Field \<Rightarrow> Model list" where
  "setField models r f =
     models[fst r := (models ! fst r)\<lparr>m_fields := (m_fields (models ! fst r))[snd r := f]\<rparr>]"

text \<open>\<open>sorted\<close> of the source: a sorted copy.\<close>

definition sorted_js :: "('a \<Rightarrow> 'a \<Rightarrow> int) \<Rightarrow> 'a list \<Rightarrow> 'a list" where
  "sorted_js sortFunction list = array_sort sortFunction list"

definition getJoinIdType :: "string \<Rightarrow> Model list \<Rightarrow> error + string" where
  "getJoinIdType typeName models =
     (case find (\<lambda>m. m_name m = typeName) models of
        None \<Rightarrow> Inl (Error ''Could not find referenced model of many-to-many relation'')
      | Some joinedModel \<Rightarrow>
          (case find (\<lambda>f. f_isId f) (m_fields joinedModel) of
             None \<Rightarrow> Inl (Error ''No ID field on referenced model of many-to-many relation'')
           | Some idField \<Rightarrow> Inr (f_type idField)))"

definition getJoinIdName :: "string \<Rightarrow> Model list \<Rightarrow> error + string" where
  "getJoinIdName typeName models =
     (case find (\<lambda>m. m_name m = typeName) models of
        None \<Rightarrow> Inl (Error ''Could not find referenced model of many-to-many relation'')
      | Some joinedModel \<Rightarrow>
          (case find (\<lambda>f. f_isId f) (m_fields joinedModel) of
             None \<Rightarrow> Inl (Error ''No ID field on referenced model of many-to-many relation'')
           | Some idField \<Rightarrow> Inr (f_name idField)))"

text \<open>The scalar and the relation field of the join model for one side.\<close>

definition joinScalarField :: "string \<Rightarrow> string \<Rightarrow> string \<Rightarrow> Field" where
  "joinScalarField tableName dbName idType =
     \<lparr>f_name = tableName @ ''Id'', f_dbName = Some dbName, f_kind = Scalar, f_type = idType,
      f_isRequired = True, f_isList = False, f_isUnique = False, f_isId = False,
      f_default = None, f_relationName = None, f_relationFromFields = None,
      f_relationToFields = None, f_relationOnDelete = None\<rparr>"

definition joinObjectField :: "string \<Rightarrow> string \<Rightarrow> string \<Rightarrow> Field" where
  "joinObjectField tableName manyTableName idName =
     \<lparr>f_name = tableName, f_dbName = None, f_kind = Object, f_type = tableName,
      f_isRequired = True, f_isList = False, f_isUnique = False, f_isId = False,
      f_default = None, f_relationName = Some (tableName @ ''To'' @ manyTableName),
      f_relationFromFields = Some [tableName @ ''Id''],
      f_relationToFields = Some [idName], f_relationOnDelete = None\<rparr>"

text \<open>\<open>generateJoinFields\<close>: the two references are sorted by the type of the field they
  point to, both fields are rewritten in the store (the second pair of assignments to
  \<open>relationFromFields\<close> and \<open>relationToFields\<close> goes to \<open>A\<close> again, as in the source, so
  \<open>B\<close> keeps its own), and then the four fields of the join model are built; the id
  lookups run on the rewritten store and may throw.\<close>

definition generateJoinFields ::
  "(string \<Rightarrow> string \<Rightarrow> int) \<Rightarrow> FieldRef \<times> FieldRef \<Rightarrow> Model list
     \<Rightarrow> error + (Field list \<times> Model list)" where
  "generateJoinFields lc fieldPair models =
     (let srt = sorted_js (\<lambda>a b. lc (f_type (fieldAt models a)) (f_type (fieldAt models b)))
                 [fst fieldPair, snd fieldPair];
          A = srt ! 0; B = srt ! 1;
          aTableName = f_type (fieldAt models B);
          bTableName = f_type (fieldAt models A);
          manyTableName = f_type (fieldAt models A) @ ''To'' @ f_type (fieldAt models B);
          models1 = setField models A ((fieldAt models A)
            \<lparr>f_type := bTableName @ ''To'' @ aTableName, f_isList := True,
             f_relationName := Some (aTableName @ ''To'' @ manyTableName),
             f_relationFromFields := Some [], f_relationToFields := Some []\<rparr>);
          models2 = setField models1 B ((fieldAt models1 B)
            \<lparr>f_type := bTableName @ ''To'' @ aTableName, f_isList := True,
             f_relationName := Some (bTableName @ ''To'' @ manyTableName)\<rparr>);
          models3 = setField models2 A ((fieldAt models2 A)
            \<lparr>f_relationFromFields := Some [], f_relationToFields := Some []\<rparr>)
      in case getJoinIdType aTableName models3 of Inl e \<Rightarrow> Inl e | Inr aIdType \<Rightarrow>
         (case getJoinIdName aTableName models3 of Inl e \<Rightarrow> Inl e | Inr aIdName \<Rightarrow>
         (case getJoinIdType bTableName models3 of Inl e \<Rightarrow> Inl e | Inr bIdType \<Rightarrow>
         (case getJoinIdName bTableName models3 of Inl e \<Rightarrow> Inl e | Inr bIdName \<Rightarrow>
            Inr ([joinScalarField aTableName ''A'' aIdType,
                  joinObjectField aTableName manyTableName aIdName,
                  joinScalarField bTableName ''B'' bIdType,
                  joinObjectField bTableName manyTableName bIdName], models3)))))"

text \<open>\<open>generateModels\<close>: \<open>shift\<close> takes the first reference, \<open>find\<close> looks for a partner with
  the same relation name among the rest, and the name of the join model is built from the
  two types before \<open>generateJoinFields\<close> rewrites them. The filter of the recursive call
  reads \<open>manyFirst.relationName\<close> after the rewrite. The result is the list of join models
  together with the store.\<close>

function generateModels ::
  "(string \<Rightarrow> string \<Rightarrow> int) \<Rightarrow> FieldRef list \<Rightarrow> Model list \<Rightarrow> Model list
     \<Rightarrow> error + (Model list \<times> Model list)" where
  "generateModels lc [] models manyToManyTables = Inr (manyToManyTables, models)"
| "generateModels lc (manyFirst # manyToManyFields) models manyToManyTables =
     (case find (\<lambda>field. f_relationName (fieldAt models field)
                          = f_relationName (fieldAt models manyFirst)) manyToManyFields of
        None \<Rightarrow> Inr (manyToManyTables, models)
      | Some manySecond \<Rightarrow>
          (let dbName = ''_'' @ tpl (f_relationName (fieldAt models manyFirst));
               name = f_type (fieldAt models manySecond) @ ''To''
                        @ f_type (fieldAt models manyFirst)
           in case generateJoinFields lc (manyFirst, manySecond) models of
                Inl e \<Rightarrow> Inl e
              | Inr (joinFields, models') \<Rightarrow>
                  generateModels lc
                    (filter (\<lambda>field. f_relationName (fieldAt models' field)
                                       \<noteq> f_relationName (fieldAt models' manyFirst))
                       manyToManyFields)
                    models'
                    (manyToManyTables @
                      [\<lparr>m_name = name, m_dbName = Some dbName, m_fields = joinFields,
                        m_primaryKey = None, m_uniqueIndexes = []\<rparr>])))"
  by pat_completeness auto
termination
  by (relation "measure (\<lambda>(lc, fs, ms, ts). length fs)") (auto simp: less_Suc_eq_le)

definition flatFieldRefs :: "Model list \<Rightarrow> FieldRef list" where
  "flatFieldRefs models =
     concat (map (\<lambda>i. map (\<lambda>j. (i, j)) [0..<length (m_fields (models ! i))])
                 [0..<length models])"

definition filterManyToManyRelationFields :: "Model list \<Rightarrow> FieldRef list" where
  "filterManyToManyRelationFields models =
     (let allFields = flatFieldRefs models;
          relationFields = filter (\<lambda>field. truthy (f_relationName (fieldAt models field))) allFields;
          nonManyToManyRelationNames =
            map (\<lambda>field. f_relationName (fieldAt models field))
              (filter (\<lambda>field. \<not> f_isList (fieldAt models field)) relationFields)
      in filter (\<lambda>field. f_relationName (fieldAt models field) \<notin> set nonManyToManyRelationNames)
           relationFields)"

text \<open>\<open>extractManyToManyModels\<close> returns the join models; the second component is the
  model list as the call leaves it.\<close>

definition extractManyToManyModels ::
  "(string \<Rightarrow> string \<Rightarrow> int) \<Rightarrow> Model list \<Rightarrow> error + (Model list \<times> Model list)" where
  "extractManyToManyModels lc models =
     (let manyToManyFields = filterManyToManyRelationFields models
      in if manyToManyFields = [] then Inr ([], models)
         else generateModels lc manyToManyFields models [])"


section \<open>More built-ins: lower case, slices, printing of values\<close>

text \<open>\<open>String.prototype.toLowerCase\<close> on ASCII.\<close>

definition toLowerChar :: "char \<Rightarrow> char" where
  "toLowerChar c =
     (if 65 \<le> (of_char c :: nat) \<and> (of_char c :: nat) \<le> 90
      then char_of ((of_char c :: nat) + 32) else c)"

definition toLowerCase :: "string \<Rightarrow> string" where
  "toLowerCase str = map toLowerChar str"

text \<open>\<open>str.slice(0, end)\<close>: a negative \<open>end\<close> counts from the end of the string.\<close>

definition slice0 :: "string \<Rightarrow> int \<Rightarrow> string" where
  "slice0 str e =
     (let len = int (length str);
          to = (if e < 0 then max (len + e) 0 else min e len)
      in take (nat to) str)"

text \<open>\<open>str.endsWith(')')\<close>.\<close>

definition endsWithParen :: "string \<Rightarrow> bool" where
  "endsWithParen str = (str \<noteq> [] \<and> last str = CHR '')'')"

text \<open>Decimal digits of a number.\<close>

fun decimal :: "nat \<Rightarrow> string" where
  "decimal n =
     (if n < 10 then [char_of (48 + n)] else decimal (n div 10) @ [char_of (48 + n mod 10)])"

definition showInt :: "int \<Rightarrow> string" where
  "showInt i = (if i < 0 then ''-'' @ decimal (nat (- i)) else decimal (nat i))"

text \<open>\<open>String(e)\<close> of a primitive.\<close>

fun jsString :: "JsPrim \<Rightarrow> string" where
  "jsString (JNum n) = showInt n"
| "jsString (JStr x) = x"
| "jsString (JBool b) = (if b then ''true'' else ''false'')"

text \<open>\<open>JSON.stringify\<close> of a primitive: a string is put in double quotes, with the quote,
  the backslash and the control characters escaped.\<close>

definition hexDigit :: "nat \<Rightarrow> char" where
  "hexDigit d = (if d < 10 then char_of (48 + d) else char_of (87 + d))"

definition jsonEscapeChar :: "char \<Rightarrow> string" where
  "jsonEscapeChar c =
     (if c = CHR 0x22 then BS @ DQ
      else if c = CHR 0x5C then BS @ BS
      else if c = CHR 0x08 then BS @ ''b''
      else if c = CHR 0x0C then BS @ ''f''
      else if c = CHR 0x0A then BS @ ''n''
      else if c = CHR 0x0D then BS @ ''r''
      else if c = CHR 0x09 then BS @ ''t''
      else if (of_char c :: nat) < 32
        then BS @ ''u00'' @ [hexDigit ((of_char c :: nat) div 16), hexDigit ((of_char c :: nat) mod 16)]
      else [c])"

fun jsonStringify :: "JsPrim \<Rightarrow> string" where
  "jsonStringify (JNum n) = showInt n"
| "jsonStringify (JStr x) = DQ @ concat (map jsonEscapeChar x) @ DQ"
| "jsonStringify (JBool b) = (if b then ''true'' else ''false'')"

text \<open>Truthiness of \<open>field.default\<close>: a missing default, \<open>0\<close>, the empty string and
  \<open>false\<close> are falsy; lists and objects are truthy.\<close>

fun truthyDefault :: "FieldDefault option \<Rightarrow> bool" where
  "truthyDefault None = False"
| "truthyDefault (Some (DefValue (JNum n))) = (n \<noteq> 0)"
| "truthyDefault (Some (DefValue (JStr x))) = (x \<noteq> [])"
| "truthyDefault (Some (DefValue (JBool b))) = b"
| "truthyDefault (Some (DefList xs)) = True"
| "truthyDefault (Some (DefCall n args)) = True"

text \<open>The test \<open>/^uuid\([0-9]*\)$/\<close>.\<close>

definition isDigit :: "char \<Rightarrow> bool" where
  "isDigit c = (48 \<le> (of_char c :: nat) \<and> (of_char c :: nat) \<le> 57)"

definition isUuidCall :: "string \<Rightarrow> bool" where
  "isUuidCall nm =
     (take 5 nm = ''uuid('' \<and> 6 \<le> length nm \<and> last nm = CHR '')''
      \<and> list_all isDigit (butlast (drop 5 nm)))"

text \<open>A plain object used as an ordered dictionary (\<open>Object.fromEntries\<close>, assignment to a
  key, reading a key, \<open>Object.values\<close>): an association list in insertion order; assigning
  to a key that is present keeps its place. Keys are field names, which never look like
  array indices.\<close>

type_synonym JsObject = "(string \<times> string) list"

fun objSet :: "string \<Rightarrow> string \<Rightarrow> JsObject \<Rightarrow> JsObject" where
  "objSet k v [] = [(k, v)]"
| "objSet k v ((k', v') # rest) = (if k' = k then (k, v) # rest else (k', v') # objSet k v rest)"

definition objGet :: "JsObject \<Rightarrow> string \<Rightarrow> string option" where
  "objGet obj k = map_of obj k"

definition fromEntries :: "(string \<times> string) list \<Rightarrow> JsObject" where
  "fromEntries entries = foldl (\<lambda>obj e. objSet (fst e) (snd e) obj) [] entries"

definition objValues :: "JsObject \<Rightarrow> string list" where
  "objValues obj = map snd obj"

section \<open>The Escaper (util/escape)\<close>

datatype StringContainer = SingleQuote | Backtick | DoubleQuote

fun containerChar :: "StringContainer \<Rightarrow> char" where
  "containerChar SingleQuote = CHR 0x27"
| "containerChar Backtick = CHR 0x60"
| "containerChar DoubleQuote = CHR 0x22"

text \<open>\<open>src.replace(regexp, replacement)\<close> for a global regular expression that matches one
  character.\<close>

definition replaceAll :: "char \<Rightarrow> string \<Rightarrow> string \<Rightarrow> string" where
  "replaceAll c replacement src = concat (map (\<lambda>x. if x = c then replacement else [x]) src)"

definition s :: "string \<Rightarrow> StringContainer \<Rightarrow> string" where
  "s src container =
     replaceAll (containerChar container) (BS @ [containerChar container])
       (replaceAll (CHR 0x5C) (BS @ BS) src)"

text \<open>\<open>s(value.args[0], '`')\<close>: the first argument of a default call may be missing or not a
  string, and then \<open>src.replace\<close> throws a TypeError.\<close>

fun sArg0 :: "JsPrim list \<Rightarrow> error + string" where
  "sArg0 [] = Inl (TypeError (''Cannot read properties of undefined (reading '' @ SQ @ ''replace'' @ SQ @ '')''))"
| "sArg0 (JStr x # rest) = Inr (s x Backtick)"
| "sArg0 (v # rest) = Inl (TypeError ''src.replace is not a function'')"

section \<open>Import tracking\<close>

text \<open>
  Every generator module owns two module-level sets, the dialect's (\<open>pgImports\<close>,
  \<open>mySqlImports\<close>, \<open>sqliteImports\<close>) and \<open>drizzleImports\<close>. They are created when
  the module is loaded and live as long as the process. A generator only ever adds to
  them and reads them once, when it builds the import lines at the end. The functions
  below therefore return, next to their result, the list of \<open>add\<close> calls they made, in
  order; the generator applies that list to the sets it was started with. A set is a
  duplicate-free list in insertion order, as \<open>Array.from(set.values())\<close> shows it.
\<close>

datatype ImportAdd = Dialect string | Drizzle string

type_synonym 'a gen = "(error + 'a) \<times> ImportAdd list"

definition ret :: "'a \<Rightarrow> 'a gen" where
  "ret x = (Inr x, [])"

definition throw :: "error \<Rightarrow> 'a gen" where
  "throw e = (Inl e, [])"

definition adding :: "ImportAdd list \<Rightarrow> 'a gen \<Rightarrow> 'a gen" where
  "adding adds m = (fst m, adds @ snd m)"

definition bindG :: "'a gen \<Rightarrow> ('a \<Rightarrow> 'b gen) \<Rightarrow> 'b gen" where
  "bindG m f = (case fst m of Inl e \<Rightarrow> (Inl e, snd m) | Inr x \<Rightarrow> adding (snd m) (f x))"

definition lift :: "error + 'a \<Rightarrow> 'a gen" where
  "lift r = (r, [])"

text \<open>\<open>xs.map(f)\<close> where \<open>f\<close> may throw: the first exception ends the loop.\<close>

fun mapG :: "('a \<Rightarrow> 'b gen) \<Rightarrow> 'a list \<Rightarrow> 'b list gen" where
  "mapG f [] = ret []"
| "mapG f (x # xs) = bindG (f x) (\<lambda>y. bindG (mapG f xs) (\<lambda>ys. ret (y # ys)))"

record Imports =
  dialectImports :: "string list"
  drizzleImports :: "string list"

definition setAdd :: "string \<Rightarrow> string list \<Rightarrow> string list" where
  "setAdd x xs = (if x \<in> set xs then xs else xs @ [x])"

fun applyAdd :: "Imports \<Rightarrow> ImportAdd \<Rightarrow> Imports" where
  "applyAdd st (Dialect x) = st\<lparr>dialectImports := setAdd x (dialectImports st)\<rparr>"
| "applyAdd st (Drizzle x) = st\<lparr>drizzleImports := setAdd x (drizzleImports st)\<rparr>"

definition applyAdds :: "Imports \<Rightarrow> ImportAdd list \<Rightarrow> Imports" where
  "applyAdds st adds = foldl applyAdd st adds"

text \<open>The import block of the output: the two import lines, each left out when its set is
  empty, joined by a newline; \<open>None\<close> when both are.\<close>

definition importsStr :: "(string \<Rightarrow> string \<Rightarrow> int) \<Rightarrow> string \<Rightarrow> Imports \<Rightarrow> string option" where
  "importsStr lc core st =
     (let drizzleImportsArr = array_sort lc (drizzleImports st);
          drizzleImportsStr =
            (if drizzleImportsArr \<noteq> []
             then Some (''import { '' @ join '', '' drizzleImportsArr @ '' } from ''
                        @ SQ @ ''drizzle-orm'' @ SQ)
             else None);
          dialectImportsArr = array_sort lc (dialectImports st);
          dialectImportsStr =
            (if dialectImportsArr \<noteq> []
             then Some (''import { '' @ join '', '' dialectImportsArr @ '' } from ''
                        @ SQ @ ''drizzle-orm/'' @ core @ SQ)
             else None);
          str = join NL (map the (filter (\<lambda>e. e \<noteq> None) [drizzleImportsStr, dialectImportsStr]))
      in if str = [] then None else Some str)"

text \<open>The last statement of every generator: the blocks that exist, joined by blank lines.\<close>

definition assemble :: "string option \<Rightarrow> string list \<Rightarrow> string" where
  "assemble imports blocks =
     join (NL @ NL) ((case imports of None \<Rightarrow> [] | Some i \<Rightarrow> [i]) @ blocks)"


section \<open>Parts shared by the three generators\<close>

text \<open>The generators are copies of one another. Where the copies agree character by
  character the model has one definition; where they differ each dialect has its own.\<close>

text \<open>The modifiers every dialect appends first.\<close>

definition commonModifiers :: "Field \<Rightarrow> string \<Rightarrow> string" where
  "commonModifiers field column =
     (let column = (if f_isRequired field then column @ ''.notNull()'' else column);
          column = (if f_isId field then column @ ''.primaryKey()'' else column);
          column = (if f_isUnique field then column @ ''.unique()'' else column)
      in column)"

text \<open>\<open>relFields\<close>: the fields with both \<open>relationToFields\<close> and \<open>relationFromFields\<close>.\<close>

definition relFieldsOf :: "Model \<Rightarrow> Field list" where
  "relFieldsOf schemaTable =
     filter (\<lambda>field. f_relationToFields field \<noteq> None \<and> f_relationFromFields field \<noteq> None)
       (m_fields schemaTable)"

text \<open>\<open>field.relationFromFields?.length\<close> as a condition.\<close>

definition hasFromFields :: "Field \<Rightarrow> bool" where
  "hasFromFields field =
     (case f_relationFromFields field of None \<Rightarrow> False | Some froms \<Rightarrow> froms \<noteq> [])"

text \<open>The \<open>switch\<close> on \<open>field.relationOnDelete\<close>; only the Postgres generator has the
  \<open>SetDefault\<close> case.\<close>

definition deleteActionOf :: "bool \<Rightarrow> string \<Rightarrow> string option \<Rightarrow> error + string" where
  "deleteActionOf withSetDefault fkeyName onDelete =
     (case onDelete of
        None \<Rightarrow> Inr ''cascade''
      | Some a \<Rightarrow>
          if a = ''Cascade'' then Inr ''cascade''
          else if a = ''SetNull'' then Inr ''set null''
          else if withSetDefault \<and> a = ''SetDefault'' then Inr ''set default''
          else if a = ''Restrict'' then Inr ''restrict''
          else if a = ''NoAction'' then Inr ''no action''
          else Inl (GeneratorError (''Unknown delete action on relation '' @ fkeyName @ '': '' @ a)))"

text \<open>The body of a foreign-key declaration after its key, up to the closing of the
  \<open>foreignKey\<close> call.\<close>

definition foreignKeyCall :: "Model \<Rightarrow> Field \<Rightarrow> string \<Rightarrow> string list \<Rightarrow> string list \<Rightarrow> string" where
  "foreignKeyCall schemaTable field fkeyName froms tos =
     ''foreignKey({'' @ NL @ TAB @ TAB @ ''name: '' @ SQ @ fkeyName @ SQ @ '','' @ NL @ TAB @ TAB
       @ ''columns: ['' @ join '', '' (map (\<lambda>rel. m_name schemaTable @ ''.'' @ rel) froms) @ ''],''
       @ NL @ TAB @ TAB
       @ ''foreignColumns: ['' @ join '', '' (map (\<lambda>rel. f_type field @ ''.'' @ rel) tos) @ '']''
       @ NL @ TAB @ ''})''"

text \<open>The two calls chained to it: \<open>onDelete\<close> unless the action is \<open>no action\<close> (or
  empty), and \<open>onUpdate('cascade')\<close>.\<close>

definition foreignKeyActions :: "string \<Rightarrow> string" where
  "foreignKeyActions deleteAction =
     (if deleteAction \<noteq> [] \<and> deleteAction \<noteq> ''no action''
      then NL @ TAB @ TAB @ ''.onDelete('' @ SQ @ deleteAction @ SQ @ '')'' else [])
     @ NL @ TAB @ TAB @ ''.onUpdate('' @ SQ @ ''cascade'' @ SQ @ '')''"

text \<open>The inline shortcut of the MySQL and SQLite generators for a relation with one
  column on each side: \<open>.references(...)\<close> is appended to the entry of the column in
  \<open>columnFields\<close>; a missing entry reads as \<open>undefined\<close> and is created.\<close>

definition inlineReference :: "Field \<Rightarrow> string \<Rightarrow> string \<Rightarrow> JsObject \<Rightarrow> JsObject" where
  "inlineReference field thisField otherField columnFields =
     objSet thisField
       (tpl (objGet columnFields thisField)
          @ ''.references(() => '' @ f_type field @ ''.'' @ otherField @ '')'')
       columnFields"

text \<open>The declaration of a relation that owns the columns \<open>froms\<close>: the name, the
  \<open>switch\<close> (which may throw), the import, and the text. \<open>quoteKey\<close> and \<open>esc\<close> carry
  the differences between the copies: the first MySQL generator neither quotes the key
  nor escapes the name.\<close>

definition fkeyNameOf :: "(string \<Rightarrow> string) \<Rightarrow> Model \<Rightarrow> Field \<Rightarrow> string" where
  "fkeyNameOf esc schemaTable field =
     esc (nullish (m_dbName schemaTable) (m_name schemaTable) @ ''_''
          @ nullish (f_dbName field) (f_name field) @ ''_fkey'')"

definition foreignKeyDecl ::
  "bool \<Rightarrow> bool \<Rightarrow> (string \<Rightarrow> string) \<Rightarrow> Model \<Rightarrow> Field \<Rightarrow> string list \<Rightarrow> string gen" where
  "foreignKeyDecl withSetDefault quoteKey esc schemaTable field froms =
     (let fkeyName = fkeyNameOf esc schemaTable field
      in bindG (lift (deleteActionOf withSetDefault fkeyName (f_relationOnDelete field)))
           (\<lambda>deleteAction.
              adding [Dialect ''foreignKey'']
                (case f_relationToFields field of
                   None \<Rightarrow> throw (TypeError (''Cannot read properties of undefined (reading '' @ SQ @ ''map'' @ SQ @ '')''))
                 | Some tos \<Rightarrow>
                     ret (TAB @ (if quoteKey then SQ @ fkeyName @ SQ else fkeyName) @ '': ''
                          @ foreignKeyCall schemaTable field fkeyName froms tos
                          @ foreignKeyActions deleteAction))))"

text \<open>One step of \<open>relFields.map(...)\<close> in the MySQL and SQLite generators: nothing for a
  side that owns no column, the inline shortcut for one column on each side, the
  declaration otherwise.\<close>

definition relationInline ::
  "bool \<Rightarrow> (string \<Rightarrow> string) \<Rightarrow> Model \<Rightarrow> Field \<Rightarrow> JsObject \<Rightarrow> (string option \<times> JsObject) gen" where
  "relationInline quoteKey esc schemaTable field columnFields =
     (case f_relationFromFields field of
        None \<Rightarrow> ret (None, columnFields)
      | Some froms \<Rightarrow>
          if froms = [] then ret (None, columnFields)
          else if length froms = 1
                  \<and> (case f_relationToFields field of None \<Rightarrow> False | Some tos \<Rightarrow> length tos = 1)
          then ret (None, inlineReference field (froms ! 0) (the (f_relationToFields field) ! 0)
                            columnFields)
          else bindG (foreignKeyDecl False quoteKey esc schemaTable field froms)
                 (\<lambda>d. ret (Some d, columnFields)))"

text \<open>The same step in the Postgres generator, which has no shortcut.\<close>

definition relationPg :: "Model \<Rightarrow> Field \<Rightarrow> JsObject \<Rightarrow> (string option \<times> JsObject) gen" where
  "relationPg schemaTable field columnFields =
     (case f_relationFromFields field of
        None \<Rightarrow> ret (None, columnFields)
      | Some froms \<Rightarrow>
          if froms = [] then ret (None, columnFields)
          else bindG (foreignKeyDecl True True (\<lambda>x. s x SingleQuote) schemaTable field froms)
                 (\<lambda>d. ret (Some d, columnFields)))"

text \<open>The whole \<open>relFields.map(...).filter(e => e !== undefined)\<close>: the declarations, and
  \<open>columnFields\<close> as the loop leaves it.\<close>

fun relationsLoop ::
  "(Field \<Rightarrow> JsObject \<Rightarrow> (string option \<times> JsObject) gen) \<Rightarrow> Field list \<Rightarrow> JsObject
     \<Rightarrow> (string list \<times> JsObject) gen" where
  "relationsLoop step [] columnFields = ret ([], columnFields)"
| "relationsLoop step (field # rest) columnFields =
     bindG (step field columnFields) (\<lambda>(r, columnFields').
       bindG (relationsLoop step rest columnFields') (\<lambda>(rs, columnFields'').
         ret ((case r of None \<Rightarrow> rs | Some d \<Rightarrow> d # rs), columnFields'')))"

text \<open>One unique-index declaration. \<open>esc\<close> is the identity in the first MySQL generator and
  the Escaper elsewhere.\<close>

definition uniqueIndexDecl :: "(string \<Rightarrow> string) \<Rightarrow> Model \<Rightarrow> UniqueIndex \<Rightarrow> string" where
  "uniqueIndexDecl esc schemaTable idx =
     (let idxName = esc (nullish (ix_name idx)
                          (m_name schemaTable @ ''_'' @ join ''_'' (ix_fields idx) @ ''_key''))
      in TAB @ SQ
         @ (if truthy (ix_name idx) then idxName
            else slice0 idxName (int (length idxName) - 4) @ ''_unique_idx'')
         @ SQ @ '': uniqueIndex('' @ SQ @ idxName @ SQ @ '')'' @ NL @ TAB @ TAB @ ''.on(''
         @ join '', '' (map (\<lambda>f. m_name schemaTable @ ''.'' @ f) (ix_fields idx)) @ '')'')"

definition uniqueIndexDecls :: "(string \<Rightarrow> string) \<Rightarrow> Model \<Rightarrow> string list gen" where
  "uniqueIndexDecls esc schemaTable =
     (if m_uniqueIndexes schemaTable \<noteq> []
      then adding [Dialect ''uniqueIndex'']
             (ret (map (uniqueIndexDecl esc schemaTable) (m_uniqueIndexes schemaTable)))
      else ret [])"

definition primaryKeyDecls :: "(string \<Rightarrow> string) \<Rightarrow> Model \<Rightarrow> string list gen" where
  "primaryKeyDecls esc schemaTable =
     (case m_primaryKey schemaTable of
        None \<Rightarrow> ret []
      | Some pk \<Rightarrow>
          (let pkName = esc (nullish (pk_name pk) (m_name schemaTable @ ''_cpk''))
           in adding [Dialect ''primaryKey'']
                (ret [TAB @ SQ @ pkName @ SQ @ '': primaryKey({'' @ NL @ TAB @ TAB @ ''name: ''
                      @ SQ @ pkName @ SQ @ '','' @ NL @ TAB @ TAB @ ''columns: [''
                      @ join '', '' (map (\<lambda>f. m_name schemaTable @ ''.'' @ f) (pk_fields pk))
                      @ '']'' @ NL @ TAB @ ''})''])))"

text \<open>The table declaration; \<open>tableFn\<close> is \<open>pgTable\<close>, \<open>mysqlTable\<close> or \<open>sqliteTable\<close>.\<close>

definition tableText :: "string \<Rightarrow> Model \<Rightarrow> string \<Rightarrow> JsObject \<Rightarrow> string list \<Rightarrow> string" where
  "tableText tableFn schemaTable tableDbName columnFields indexes =
     ''export const '' @ m_name schemaTable @ '' = '' @ tableFn @ ''('' @ SQ @ tableDbName @ SQ
       @ '', {'' @ NL @ join ('','' @ NL) (objValues columnFields) @ NL @ ''}''
       @ (if indexes \<noteq> []
          then '', ('' @ m_name schemaTable @ '') => ({'' @ NL @ join ('','' @ NL) indexes @ NL @ ''})''
          else [])
       @ '');''"

text \<open>The relations block of a table. \<open>key\<close> gives the key of an entry and \<open>relName\<close> the
  text put in \<open>relationName\<close>: the first MySQL generator prints \<open>field.relationName\<close> for
  both, the others use the field name and the escaped relation name.\<close>

definition rqbField :: "(Field \<Rightarrow> string) \<Rightarrow> (Field \<Rightarrow> string) \<Rightarrow> Model \<Rightarrow> Field \<Rightarrow> string gen" where
  "rqbField key relName schemaTable field =
     (if hasFromFields field
      then (case f_relationToFields field of
              None \<Rightarrow> throw (TypeError (''Cannot read properties of undefined (reading '' @ SQ @ ''map'' @ SQ @ '')''))
            | Some tos \<Rightarrow>
                ret (TAB @ key field @ '': one('' @ f_type field @ '', {'' @ NL @ TAB @ TAB
                     @ ''relationName: '' @ SQ @ relName field @ SQ @ '','' @ NL @ TAB @ TAB
                     @ ''fields: [''
                     @ join '', '' (map (\<lambda>e. m_name schemaTable @ ''.'' @ e)
                                      (the (f_relationFromFields field)))
                     @ ''],'' @ NL @ TAB @ TAB @ ''references: [''
                     @ join '', '' (map (\<lambda>e. f_type field @ ''.'' @ e) tos)
                     @ '']'' @ NL @ TAB @ ''})''))
      else ret (TAB @ key field @ '': many('' @ f_type field @ '', {'' @ NL @ TAB @ TAB
                @ ''relationName: '' @ SQ @ relName field @ SQ @ NL @ TAB @ ''})''))"

definition rqbRelation ::
  "(Field \<Rightarrow> string) \<Rightarrow> (Field \<Rightarrow> string) \<Rightarrow> Model \<Rightarrow> Field list \<Rightarrow> string option gen" where
  "rqbRelation key relName schemaTable relFields =
     (if relFields = [] then ret None
      else adding [Drizzle ''relations'']
        (bindG (mapG (rqbField key relName schemaTable) relFields) (\<lambda>rqbFields.
           let relationArgs =
                 foldl (\<lambda>args field. setAdd (if hasFromFields field then ''one'' else ''many'') args)
                   [] relFields;
               argString = join '', '' relationArgs
           in ret (Some (''export const '' @ m_name schemaTable @ ''Relations = relations(''
                         @ m_name schemaTable @ '', ({ '' @ argString @ '' }) => ({'' @ NL
                         @ join ('','' @ NL) rqbFields @ NL @ ''}));'')))))"

text \<open>\<open>tables\<close> and \<open>rqb\<close> from the per-table results of the main loop.\<close>

definition blocksOf :: "(string \<times> string option) list \<Rightarrow> string list" where
  "blocksOf results =
     map fst results @ map the (filter (\<lambda>r. r \<noteq> None) (map snd results))"


text \<open>Column constructors with one argument and with an options object.\<close>

definition call1 :: "string \<Rightarrow> string \<Rightarrow> string" where
  "call1 fn colDbName = fn @ ''('' @ SQ @ colDbName @ SQ @ '')''"

definition call2 :: "string \<Rightarrow> string \<Rightarrow> string \<Rightarrow> string" where
  "call2 fn colDbName opts = fn @ ''('' @ SQ @ colDbName @ SQ @ '', { '' @ opts @ '' })''"

text \<open>The entries \<open>[name, column]\<close> whose column is defined.\<close>

definition definedEntries :: "(string \<times> string option) list \<Rightarrow> (string \<times> string) list" where
  "definedEntries entries =
     map (\<lambda>e. (fst e, the (snd e))) (filter (\<lambda>e. snd e \<noteq> None) entries)"

text \<open>The default of a call other than the ones a dialect knows, in the first MySQL
  generator and in the SQLite one: name and arguments in parentheses.\<close>

definition stringifiedCall :: "string \<Rightarrow> JsPrim list \<Rightarrow> string" where
  "stringifiedCall nm args = nm @ ''('' @ join '', '' (map jsString args) @ '')''"

text \<open>The array default of the first MySQL generator and of the SQLite one; the template
  has a line break and six tabs in it, and one closing parenthesis too many.\<close>

definition arrayDefault :: "JsPrim list \<Rightarrow> string" where
  "arrayDefault defVal =
     ''.default('' @ NL @ TAB @ TAB @ TAB @ TAB @ TAB @ TAB @ ''sql'' @ BT @ ''ARRAY[''
       @ join '','' (map jsString defVal) @ '']'' @ BT @ ''))''"

text \<open>The end of every generator: the recorded \<open>add\<close> calls reach the module's sets, and
  on success the output text is assembled from the sets as they are then.\<close>

definition finish ::
  "(string \<Rightarrow> string \<Rightarrow> int) \<Rightarrow> string \<Rightarrow> Imports \<Rightarrow> string list gen \<Rightarrow> (error + string) \<times> Imports" where
  "finish lc core st run =
     (let st' = applyAdds st (snd run)
      in (case fst run of
            Inl e \<Rightarrow> Inl e
          | Inr blocks \<Rightarrow> Inr (assemble (importsStr lc core st') blocks),
          st'))"

section \<open>The MySQL generator (util/generators/mysql.ts, first version in the file)\<close>

text \<open>
  The source holds three revisions of this generator. The one modelled here is the first
  in \<open>mysql.ts\<close>: it has no Escaper, compares the type names as they are written, and
  inlines a relation with one column on each side. The two later revisions pass names and
  raw SQL through the Escaper and compare lower-cased type names; the last of them also
  reads native types from the schema text and declares every relation separately, as the
  Postgres generator does. Where they differ from the first revision in what is proved
  below, the shared definitions cover them through their parameters (\<open>esc\<close>, \<open>quoteKey\<close>,
  \<open>relationInline\<close> against \<open>relationPg\<close>).
\<close>

definition mySqlImportsInit :: Imports where
  "mySqlImportsInit = \<lparr>dialectImports = [''mysqlTable''], drizzleImports = []\<rparr>"

definition prismaToDrizzleType_mysql ::
  "string \<Rightarrow> string \<Rightarrow> DatamodelEnum option \<Rightarrow> string option gen" where
  "prismaToDrizzleType_mysql type colDbName prismaEnum =
     (case prismaEnum of
        Some en \<Rightarrow>
          adding [Dialect ''mysqlEnum'']
            (ret (Some (''mysqlEnum('' @ SQ @ colDbName @ SQ @ '', [''
                        @ join '', '' (map (\<lambda>val. SQ @ nullish (v_dbName val) (v_name val) @ SQ)
                                         (e_values en))
                        @ ''])'')))
      | None \<Rightarrow>
          if type = ''BigInt'' then
            adding [Dialect ''bigint''] (ret (Some (call2 ''bigint'' colDbName (''mode: '' @ SQ @ ''bigint'' @ SQ))))
          else if type = ''Boolean'' then
            adding [Dialect ''boolean''] (ret (Some (call1 ''boolean'' colDbName)))
          else if type = ''Bytes'' then
            throw (GeneratorError (''Drizzle ORM doesn'' @ SQ @ ''t support binary data type for MySQL''))
          else if type = ''DateTime'' then
            adding [Dialect ''datetime''] (ret (Some (call2 ''datetime'' colDbName ''fsp: 3'')))
          else if type = ''Decimal'' then
            adding [Dialect ''decimal''] (ret (Some (call2 ''decimal'' colDbName ''precision: 65, scale: 30'')))
          else if type = ''Float'' then
            adding [Dialect ''double''] (ret (Some (call1 ''double'' colDbName)))
          else if type = ''JSON'' then
            adding [Dialect ''json''] (ret (Some (call1 ''json'' colDbName)))
          else if type = ''Int'' then
            adding [Dialect ''int''] (ret (Some (call1 ''int'' colDbName)))
          else if type = ''String'' then
            adding [Dialect ''varchar''] (ret (Some (call2 ''varchar'' colDbName ''length: 191'')))
          else ret None)"

definition addColumnModifiers_mysql :: "Field \<Rightarrow> string \<Rightarrow> string gen" where
  "addColumnModifiers_mysql field column0 =
     (let column = commonModifiers field column0
      in if truthyDefault (f_default field) then
           (case the (f_default field) of
              DefValue defVal \<Rightarrow> ret (column @ ''.default('' @ jsonStringify defVal @ '')'')
            | DefList defVal \<Rightarrow> adding [Drizzle ''sql''] (ret (column @ arrayDefault defVal))
            | DefCall nm args \<Rightarrow>
                if nm = ''now'' then
                  ret (column @ ''.default(sql'' @ BT @ ''CURRENT_TIMESTAMP'' @ BT @ '')'')
                else if nm = ''autoincrement'' then ret (column @ ''.autoincrement()'')
                else if nm = ''dbgenerated'' then
                  adding [Drizzle ''sql'']
                    (ret (column @ ''.default(sql'' @ BT
                          @ (case args of [] \<Rightarrow> ''undefined'' | a # rest \<Rightarrow> jsString a)
                          @ BT @ '')''))
                else
                  adding [Drizzle ''sql'']
                    (ret (column @ ''.default('' @ ''sql'' @ BT @ stringifiedCall nm args @ BT @ '')'')))
         else ret column)"

definition prismaToDrizzleColumn_mysql :: "Field \<Rightarrow> DatamodelEnum list \<Rightarrow> string option gen" where
  "prismaToDrizzleColumn_mysql field enums =
     (let colDbName = nullish (f_dbName field) (f_name field);
          column = TAB @ f_name field @ '': ''
      in bindG (prismaToDrizzleType_mysql (f_type field) colDbName
                  (if f_kind field = Enum then find (\<lambda>e. e_name e = f_type field) enums else None))
           (\<lambda>drizzleType. case drizzleType of
              None \<Rightarrow> ret None
            | Some ty \<Rightarrow> bindG (addColumnModifiers_mysql field (column @ ty)) (\<lambda>c. ret (Some c))))"

text \<open>The entries that \<open>Object.fromEntries\<close> receives for one table.\<close>

definition columnEntries_mysql :: "DatamodelEnum list \<Rightarrow> Field list \<Rightarrow> (string \<times> string) list gen" where
  "columnEntries_mysql enums fieldList =
     bindG (mapG (\<lambda>e. bindG (prismaToDrizzleColumn_mysql e enums) (\<lambda>c. ret (f_name e, c))) fieldList)
       (\<lambda>entries. ret (definedEntries entries))"

text \<open>The body of the loop over the tables: the table declaration and, if the table has
  relation fields, its relations block.\<close>

definition table_mysql :: "DatamodelEnum list \<Rightarrow> Model \<Rightarrow> (string \<times> string option) gen" where
  "table_mysql enums schemaTable =
     (let tableDbName = nullish (m_dbName schemaTable) (m_name schemaTable)
      in bindG (columnEntries_mysql enums (m_fields schemaTable)) (\<lambda>entries.
         let relFields = relFieldsOf schemaTable
         in bindG (relationsLoop (relationInline False (\<lambda>x. x) schemaTable) relFields
                     (fromEntries entries)) (\<lambda>(relations, columnFields).
            bindG (uniqueIndexDecls (\<lambda>x. x) schemaTable) (\<lambda>uniques.
            bindG (primaryKeyDecls (\<lambda>x. x) schemaTable) (\<lambda>pkField.
            let indexes = relations @ uniques @ pkField;
                table = tableText ''mysqlTable'' schemaTable tableDbName columnFields indexes
            in bindG (rqbRelation (\<lambda>field. SQ @ tpl (f_relationName field) @ SQ)
                        (\<lambda>field. tpl (f_relationName field)) schemaTable relFields)
                 (\<lambda>rqb. ret (table, rqb)))))))"

definition generateMySqlSchema ::
  "(string \<Rightarrow> string \<Rightarrow> int) \<Rightarrow> GeneratorOptions \<Rightarrow> Imports \<Rightarrow> (error + string) \<times> Imports" where
  "generateMySqlSchema lc options imports =
     finish lc ''mysql-core'' imports
       (bindG (lift (extractManyToManyModels lc (o_models options)))
          (\<lambda>(manyToManyModels, clonedModels).
             bindG (mapG (table_mysql (o_enums options)) (clonedModels @ manyToManyModels))
               (\<lambda>results. ret (blocksOf results))))"


section \<open>The Postgres generator\<close>

definition pgImportsInit :: Imports where
  "pgImportsInit = \<lparr>dialectImports = [''pgTable''], drizzleImports = []\<rparr>"

definition prismaToDrizzleType_pg ::
  "string \<Rightarrow> string \<Rightarrow> string option \<Rightarrow> string option \<Rightarrow> string option gen" where
  "prismaToDrizzleType_pg type colDbName defVal nativeType =
     (let ty = toLowerCase type
      in if ty = ''bigint'' then
           adding [Dialect ''bigint''] (ret (Some (call2 ''bigint'' colDbName (''mode: '' @ SQ @ ''bigint'' @ SQ))))
         else if ty = ''boolean'' then
           adding [Dialect ''boolean''] (ret (Some (call1 ''boolean'' colDbName)))
         else if ty = ''bytes'' then
           throw (GeneratorError (''Drizzle ORM doesn'' @ SQ @ ''t support binary data type for PostgreSQL''))
         else if ty = ''datetime'' then
           (if truthy nativeType then
              adding [Dialect (the nativeType)]
                (ret (Some (call2 (the nativeType) colDbName ''precision: 3'')))
            else adding [Dialect ''timestamp''] (ret (Some (call2 ''timestamp'' colDbName ''precision: 3''))))
         else if ty = ''decimal'' then
           adding [Dialect ''decimal''] (ret (Some (call2 ''decimal'' colDbName ''precision: 65, scale: 30'')))
         else if ty = ''float'' then
           adding [Dialect ''doublePrecision''] (ret (Some (call1 ''doublePrecision'' colDbName)))
         else if ty = ''json'' then
           adding [Dialect ''jsonb''] (ret (Some (call1 ''jsonb'' colDbName)))
         else if ty = ''int'' then
           (if defVal = Some ''autoincrement'' then
              adding [Dialect ''serial''] (ret (Some (call1 ''serial'' colDbName)))
            else adding [Dialect ''integer''] (ret (Some (call1 ''integer'' colDbName))))
         else if ty = ''string'' then
           adding [Dialect ''text''] (ret (Some (call1 ''text'' colDbName)))
         else ret None)"

text \<open>The default of a call the dialect does not know, in the Postgres generator: the
  parentheses are left out when the name already ends in one.\<close>

definition stringifiedCall_pg :: "string \<Rightarrow> JsPrim list \<Rightarrow> string" where
  "stringifiedCall_pg nm args =
     nm @ (if args \<noteq> [] then ''('' @ join '', '' (map jsString args) @ '')''
           else if endsWithParen nm then [] else ''()'')"

definition addColumnModifiers_pg :: "Field \<Rightarrow> string \<Rightarrow> string gen" where
  "addColumnModifiers_pg field column0 =
     (let column = commonModifiers field (if f_isList field then column0 @ ''.array()'' else column0)
      in if truthyDefault (f_default field) then
           (case the (f_default field) of
              DefValue defVal \<Rightarrow> ret (column @ ''.default('' @ jsonStringify defVal @ '')'')
            | DefList defVal \<Rightarrow>
                ret (column @ ''.default(['' @ join '', '' (map jsonStringify defVal) @ ''])'')
            | DefCall nm args \<Rightarrow>
                if nm = ''now'' then ret (column @ ''.defaultNow()'')
                else if nm = ''autoincrement'' then ret column
                else if nm = ''dbgenerated'' then
                  bindG (lift (sArg0 args)) (\<lambda>arg.
                    adding [Drizzle ''sql''] (ret (column @ ''.default(sql'' @ BT @ arg @ BT @ '')'')))
                else if isUuidCall nm then
                  adding [Drizzle ''sql''] (ret (column @ ''.default(sql'' @ BT @ ''uuid()'' @ BT @ '')''))
                else
                  adding [Drizzle ''sql'']
                    (ret (column @ ''.default('' @ ''sql'' @ BT
                          @ s (stringifiedCall_pg nm args) Backtick @ BT @ '')'')))
         else ret column)"

definition prismaToDrizzleColumn_pg :: "Field \<Rightarrow> string option \<Rightarrow> string option gen" where
  "prismaToDrizzleColumn_pg field nativeType =
     (let colDbName = s (nullish (f_dbName field) (f_name field)) SingleQuote;
          column = TAB @ f_name field @ '': ''
      in if f_kind field = Enum then
           bindG (addColumnModifiers_pg field (column @ f_type field @ ''('' @ SQ @ colDbName @ SQ @ '')''))
             (\<lambda>c. ret (Some c))
         else
           (let defVal = (case f_default field of Some (DefCall nm args) \<Rightarrow> Some nm | _ \<Rightarrow> None)
            in bindG (prismaToDrizzleType_pg (f_type field) colDbName defVal nativeType)
                 (\<lambda>drizzleType. case drizzleType of
                    None \<Rightarrow> ret None
                  | Some ty \<Rightarrow> bindG (addColumnModifiers_pg field (column @ ty)) (\<lambda>c. ret (Some c)))))"

text \<open>The loop over the enums: an enum without values is skipped.\<close>

definition pgEnumDecl :: "DatamodelEnum \<Rightarrow> string" where
  "pgEnumDecl schemaEnum =
     (let enumDbName = s (nullish (e_dbName schemaEnum) (e_name schemaEnum)) SingleQuote
      in ''export const '' @ e_name schemaEnum @ '' = pgEnum('' @ SQ @ enumDbName @ SQ @ '', [''
         @ join '', '' (map (\<lambda>e. SQ @ nullish (v_dbName e) (v_name e) @ SQ) (e_values schemaEnum))
         @ ''])'')"

fun pgEnumsLoop :: "DatamodelEnum list \<Rightarrow> string list gen" where
  "pgEnumsLoop [] = ret []"
| "pgEnumsLoop (schemaEnum # rest) =
     (if e_values schemaEnum = [] then pgEnumsLoop rest
      else adding [Dialect ''pgEnum'']
             (bindG (pgEnumsLoop rest) (\<lambda>pgEnums. ret (pgEnumDecl schemaEnum # pgEnums))))"

text \<open>One entry of \<open>columnFields\<close>: the field is looked up in the parsed schema for its
  native-type attribute first.\<close>

definition columnEntry_pg :: "AstModel \<Rightarrow> Field \<Rightarrow> (string \<times> string option) gen" where
  "columnEntry_pg modelAst field =
     (case find (\<lambda>p. af_name p = f_name field) (am_properties modelAst) of
        None \<Rightarrow> throw (Error (''Model '' @ am_name modelAst @ '' not found in schema''))
      | Some fieldAst \<Rightarrow>
          (let dbAttribute =
                 (case af_attributes fieldAst of
                    None \<Rightarrow> None
                  | Some attrs \<Rightarrow> find (\<lambda>attr. a_group attr = Some ''db'') attrs)
           in bindG (prismaToDrizzleColumn_pg field
                       (map_option (\<lambda>attr. toLowerCase (a_name attr)) dbAttribute))
                (\<lambda>c. ret (f_name field, c))))"

definition columnEntries_pg :: "AstModel \<Rightarrow> Field list \<Rightarrow> (string \<times> string) list gen" where
  "columnEntries_pg modelAst fieldList =
     bindG (mapG (columnEntry_pg modelAst) fieldList) (\<lambda>entries. ret (definedEntries entries))"

definition table_pg :: "AstModel list \<Rightarrow> Model \<Rightarrow> (string \<times> string option) gen" where
  "table_pg datamodel schemaTable =
     (case find (\<lambda>m. am_name m = m_name schemaTable) datamodel of
        None \<Rightarrow> throw (Error (''Model '' @ m_name schemaTable @ '' not found in schema''))
      | Some modelAst \<Rightarrow>
          (let tableDbName = s (nullish (m_dbName schemaTable) (m_name schemaTable)) SingleQuote
           in bindG (columnEntries_pg modelAst (m_fields schemaTable)) (\<lambda>entries.
              let relFields = relFieldsOf schemaTable
              in bindG (relationsLoop (relationPg schemaTable) relFields (fromEntries entries))
                   (\<lambda>(relations, columnFields).
                 bindG (uniqueIndexDecls (\<lambda>x. s x SingleQuote) schemaTable) (\<lambda>uniques.
                 bindG (primaryKeyDecls (\<lambda>x. s x SingleQuote) schemaTable) (\<lambda>pkField.
                 let indexes = relations @ uniques @ pkField;
                     table = tableText ''pgTable'' schemaTable tableDbName columnFields indexes
                 in bindG (rqbRelation f_name
                             (\<lambda>field. s (nullish (f_relationName field) []) SingleQuote)
                             schemaTable relFields)
                      (\<lambda>rqb. ret (table, rqb))))))))"

definition generatePgSchema ::
  "(string \<Rightarrow> string \<Rightarrow> int) \<Rightarrow> GeneratorOptions \<Rightarrow> Imports \<Rightarrow> (error + string) \<times> Imports" where
  "generatePgSchema lc options imports =
     finish lc ''pg-core'' imports
       (bindG (lift (extractManyToManyModels lc (o_models options)))
          (\<lambda>(manyToManyModels, clonedModels).
             bindG (pgEnumsLoop (o_enums options)) (\<lambda>pgEnums.
             bindG (mapG (table_pg (o_datamodel options)) (clonedModels @ manyToManyModels))
               (\<lambda>results. ret (pgEnums @ blocksOf results)))))"

section \<open>The SQLite generator\<close>

definition sqliteImportsInit :: Imports where
  "sqliteImportsInit = \<lparr>dialectImports = [''sqliteTable''], drizzleImports = []\<rparr>"

definition prismaToDrizzleType_sqlite :: "string \<Rightarrow> string \<Rightarrow> string option gen" where
  "prismaToDrizzleType_sqlite type colDbName =
     (let ty = toLowerCase type
      in if ty = ''bigint'' then
           adding [Dialect ''int''] (ret (Some (call1 ''int'' colDbName)))
         else if ty = ''boolean'' then
           adding [Dialect ''int''] (ret (Some (call2 ''int'' colDbName (''mode: '' @ SQ @ ''boolean'' @ SQ))))
         else if ty = ''bytes'' then
           adding [Dialect ''blob''] (ret (Some (call2 ''blob'' colDbName (''mode: '' @ SQ @ ''buffer'' @ SQ))))
         else if ty = ''datetime'' then
           adding [Dialect ''numeric''] (ret (Some (call1 ''numeric'' colDbName)))
         else if ty = ''decimal'' then
           adding [Dialect ''numeric''] (ret (Some (call1 ''numeric'' colDbName)))
         else if ty = ''float'' then
           adding [Dialect ''real''] (ret (Some (call1 ''real'' colDbName)))
         else if ty = ''json'' then
           adding [Dialect ''text''] (ret (Some (call2 ''text'' colDbName (''mode: '' @ SQ @ ''json'' @ SQ))))
         else if ty = ''int'' then
           adding [Dialect ''int''] (ret (Some (call1 ''int'' colDbName)))
         else if ty = ''string'' then
           adding [Dialect ''text''] (ret (Some (call1 ''text'' colDbName)))
         else ret None)"

definition addColumnModifiers_sqlite :: "Field \<Rightarrow> string \<Rightarrow> string gen" where
  "addColumnModifiers_sqlite field column0 =
     (let column = commonModifiers field column0
      in if truthyDefault (f_default field) then
           (case the (f_default field) of
              DefValue defVal \<Rightarrow> ret (column @ ''.default('' @ jsonStringify defVal @ '')'')
            | DefList defVal \<Rightarrow> adding [Drizzle ''sql''] (ret (column @ arrayDefault defVal))
            | DefCall nm args \<Rightarrow>
                if nm = ''now'' then
                  ret (column @ ''.default(sql'' @ BT @ ''DATE('' @ SQ @ ''now'' @ SQ @ '')'' @ BT @ '')'')
                else if nm = ''autoincrement'' then ret column
                else if nm = ''dbgenerated'' then
                  bindG (lift (sArg0 args)) (\<lambda>arg.
                    adding [Drizzle ''sql''] (ret (column @ ''.default(sql'' @ BT @ arg @ BT @ '')'')))
                else
                  adding [Drizzle ''sql'']
                    (ret (column @ ''.default('' @ ''sql'' @ BT
                          @ s (stringifiedCall nm args) Backtick @ BT @ '')'')))
         else ret column)"

definition prismaToDrizzleColumn_sqlite :: "Field \<Rightarrow> string option gen" where
  "prismaToDrizzleColumn_sqlite field =
     (let colDbName = s (nullish (f_dbName field) (f_name field)) SingleQuote;
          column = TAB @ f_name field @ '': ''
      in bindG (prismaToDrizzleType_sqlite (f_type field) colDbName)
           (\<lambda>drizzleType. case drizzleType of
              None \<Rightarrow> ret None
            | Some ty \<Rightarrow> bindG (addColumnModifiers_sqlite field (column @ ty)) (\<lambda>c. ret (Some c))))"

definition columnEntries_sqlite :: "Field list \<Rightarrow> (string \<times> string) list gen" where
  "columnEntries_sqlite fieldList =
     bindG (mapG (\<lambda>e. bindG (prismaToDrizzleColumn_sqlite e) (\<lambda>c. ret (f_name e, c))) fieldList)
       (\<lambda>entries. ret (definedEntries entries))"

definition table_sqlite :: "Model \<Rightarrow> (string \<times> string option) gen" where
  "table_sqlite schemaTable =
     (let tableDbName = s (nullish (m_dbName schemaTable) (m_name schemaTable)) SingleQuote
      in bindG (columnEntries_sqlite (m_fields schemaTable)) (\<lambda>entries.
         let relFields = relFieldsOf schemaTable
         in bindG (relationsLoop (relationInline True (\<lambda>x. s x SingleQuote) schemaTable) relFields
                     (fromEntries entries)) (\<lambda>(relations, columnFields).
            bindG (uniqueIndexDecls (\<lambda>x. s x SingleQuote) schemaTable) (\<lambda>uniques.
            bindG (primaryKeyDecls (\<lambda>x. s x SingleQuote) schemaTable) (\<lambda>pkField.
            let indexes = relations @ uniques @ pkField;
                table = tableText ''sqliteTable'' schemaTable tableDbName columnFields indexes
            in bindG (rqbRelation f_name
                        (\<lambda>field. s (nullish (f_relationName field) []) SingleQuote)
                        schemaTable relFields)
                 (\<lambda>rqb. ret (table, rqb)))))))"

definition generateSQLiteSchema ::
  "(string \<Rightarrow> string \<Rightarrow> int) \<Rightarrow> GeneratorOptions \<Rightarrow> Imports \<Rightarrow> (error + string) \<times> Imports" where
  "generateSQLiteSchema lc options imports =
     finish lc ''sqlite-core'' imports
       (bindG (lift (extractManyToManyModels lc (o_models options)))
          (\<lambda>(manyToManyModels, clonedModels).
             bindG (mapG table_sqlite (clonedModels @ manyToManyModels))
               (\<lambda>results. ret (blocksOf results))))"


section \<open>Concrete schemas\<close>

text \<open>A required scalar field without attributes, as the DMMF lists it.\<close>

definition scalarField :: "string \<Rightarrow> string \<Rightarrow> Field" where
  "scalarField nm ty =
     \<lparr>f_name = nm, f_dbName = None, f_kind = Scalar, f_type = ty,
      f_isRequired = True, f_isList = False, f_isUnique = False, f_isId = False,
      f_default = None, f_relationName = None, f_relationFromFields = None,
      f_relationToFields = None, f_relationOnDelete = None\<rparr>"

text \<open>\<open>id Ty @id\<close>.\<close>

definition idField :: "string \<Rightarrow> Field" where
  "idField ty = (scalarField ''id'' ty)\<lparr>f_isId := True\<rparr>"

text \<open>The list side of a relation, \<open>nm Ty[]\<close>, under the relation name \<open>rel\<close>.\<close>

definition listRelationField :: "string \<Rightarrow> string \<Rightarrow> string \<Rightarrow> Field" where
  "listRelationField nm ty rel =
     (scalarField nm ty)\<lparr>f_kind := Object, f_isList := True, f_relationName := Some rel,
        f_relationFromFields := Some [], f_relationToFields := Some []\<rparr>"

text \<open>The owning side of a relation: \<open>nm Ty @relation(fields: froms, references: tos)\<close>.\<close>

definition owningRelationField ::
  "string \<Rightarrow> string \<Rightarrow> string \<Rightarrow> string list \<Rightarrow> string list \<Rightarrow> string option \<Rightarrow> Field" where
  "owningRelationField nm ty rel froms tos onDelete =
     (scalarField nm ty)\<lparr>f_kind := Object, f_relationName := Some rel,
        f_relationFromFields := Some froms, f_relationToFields := Some tos,
        f_relationOnDelete := onDelete\<rparr>"

definition plainModel :: "string \<Rightarrow> Field list \<Rightarrow> Model" where
  "plainModel nm fs =
     \<lparr>m_name = nm, m_dbName = None, m_fields = fs, m_primaryKey = None, m_uniqueIndexes = []\<rparr>"

definition dmmfOnly :: "Model list \<Rightarrow> GeneratorOptions" where
  "dmmfOnly ms = \<lparr>o_models = ms, o_enums = [], o_datamodel = []\<rparr>"

text \<open>\<open>model Post { id Int @id; tags Tag[] }\<close> and \<open>model Tag { id String @id; posts Post[] }\<close>:
  an implicit many-to-many relation, named \<open>PostToTag\<close> by Prisma.\<close>

definition modelPost :: Model where
  "modelPost = plainModel ''Post'' [idField ''Int'', listRelationField ''tags'' ''Tag'' ''PostToTag'']"

definition modelTag :: Model where
  "modelTag = plainModel ''Tag'' [idField ''String'', listRelationField ''posts'' ''Post'' ''PostToTag'']"

text \<open>A second implicit many-to-many relation, between \<open>User\<close> and \<open>Group\<close>.\<close>

definition modelUser :: Model where
  "modelUser = plainModel ''User'' [idField ''Int'', listRelationField ''groups'' ''Group'' ''GroupToUser'']"

definition modelGroup :: Model where
  "modelGroup = plainModel ''Group'' [idField ''Int'', listRelationField ''users'' ''User'' ''GroupToUser'']"

text \<open>The scenario of the specification:
  \<open>model User { id Int @id @default(autoincrement()); email String @unique }\<close>, with the
  schema text as the parser presents it.\<close>

definition scenarioUser :: Model where
  "scenarioUser = plainModel ''User''
     [(idField ''Int'')\<lparr>f_default := Some (DefCall ''autoincrement'' [])\<rparr>,
      (scalarField ''email'' ''String'')\<lparr>f_isUnique := True\<rparr>]"

definition scenarioOptions :: GeneratorOptions where
  "scenarioOptions =
     \<lparr>o_models = [scenarioUser], o_enums = [],
      o_datamodel =
        [\<lparr>am_name = ''User'',
          am_properties =
            [\<lparr>af_name = ''id'',
              af_attributes = Some [\<lparr>a_group = None, a_name = ''id''\<rparr>,
                                    \<lparr>a_group = None, a_name = ''default''\<rparr>]\<rparr>,
             \<lparr>af_name = ''email'',
              af_attributes = Some [\<lparr>a_group = None, a_name = ''unique''\<rparr>]\<rparr>]\<rparr>]\<rparr>"

text \<open>\<open>enum Mood { HAPPY @map("it's fine") }\<close> and nothing else.\<close>

definition moodOptions :: GeneratorOptions where
  "moodOptions =
     \<lparr>o_models = [],
      o_enums = [\<lparr>e_name = ''Mood'', e_dbName = None,
                  e_values = [\<lparr>v_name = ''HAPPY'', v_dbName = Some (''it'' @ SQ @ ''s fine'')\<rparr>]\<rparr>],
      o_datamodel = []\<rparr>"

text \<open>\<open>note String @default(dbgenerated("a`b"))\<close>.\<close>

definition noteField :: Field where
  "noteField =
     (scalarField ''note'' ''String'')
       \<lparr>f_default := Some (DefCall ''dbgenerated'' [JStr (''a'' @ BT @ ''b'')])\<rparr>"

text \<open>\<open>model Flag { on Boolean }\<close> and \<open>model Count { n Int }\<close>, each a schema of its own.\<close>

definition flagOptions :: GeneratorOptions where
  "flagOptions = dmmfOnly [plainModel ''Flag'' [scalarField ''on'' ''Boolean'']]"

definition countOptions :: GeneratorOptions where
  "countOptions = dmmfOnly [plainModel ''Count'' [scalarField ''n'' ''Int'']]"

text \<open>\<open>model Profile { id Int @id; userId Int; user Owner @relation(fields: [userId],
  references: [id]) }\<close>: one column on each side, no \<open>onDelete\<close>.\<close>

definition modelProfile :: Model where
  "modelProfile = plainModel ''Profile''
     [idField ''Int'', scalarField ''userId'' ''Int'',
      owningRelationField ''user'' ''Owner'' ''OwnerToProfile'' [''userId''] [''id''] None]"

text \<open>\<open>model Line { id Int @id; orderId Int; shopId Int; order Order @relation(fields:
  [orderId, shopId], references: [id, shopId]) }\<close>: a relation over two columns, with the
  \<open>onDelete\<close> argument given or not; and the declaration the generators that quote its key
  emit for it, up to the calls chained to \<open>foreignKey\<close>.\<close>

definition lineOrder :: "string option \<Rightarrow> Field" where
  "lineOrder onDelete =
     owningRelationField ''order'' ''Order'' ''LineToOrder'' [''orderId'', ''shopId'']
       [''id'', ''shopId''] onDelete"

definition modelLine :: "string option \<Rightarrow> Model" where
  "modelLine onDelete = plainModel ''Line''
     [idField ''Int'', scalarField ''orderId'' ''Int'', scalarField ''shopId'' ''Int'',
      lineOrder onDelete]"

definition lineDecl :: "string \<Rightarrow> string" where
  "lineDecl actions =
     TAB @ SQ @ ''Line_order_fkey'' @ SQ @ '': foreignKey({'' @ NL
     @ TAB @ TAB @ ''name: '' @ SQ @ ''Line_order_fkey'' @ SQ @ '','' @ NL
     @ TAB @ TAB @ ''columns: [Line.orderId, Line.shopId],'' @ NL
     @ TAB @ TAB @ ''foreignColumns: [Order.id, Order.shopId]'' @ NL
     @ TAB @ ''})'' @ actions"

text \<open>Two unique indexes of a model \<open>User\<close>: \<open>@@unique([email])\<close>, which has no name, and
  \<open>@@unique([email], name: "email_key")\<close>.\<close>

definition unnamedIndex :: UniqueIndex where
  "unnamedIndex = \<lparr>ix_name = None, ix_fields = [''email'']\<rparr>"

definition namedIndex :: UniqueIndex where
  "namedIndex = \<lparr>ix_name = Some ''email_key'', ix_fields = [''email'']\<rparr>"

text \<open>\<open>model File { id Int @id; data Bytes }\<close> and \<open>model Shape { id Int @id; outline
  Unsupported("circle") }\<close>.\<close>

definition fileData :: Field where
  "fileData = scalarField ''data'' ''Bytes''"

definition modelFile :: Model where
  "modelFile = plainModel ''File'' [idField ''Int'', fileData]"

definition shapeOutline :: Field where
  "shapeOutline = (scalarField ''outline'' ''circle'')\<lparr>f_kind := Unsupported\<rparr>"

definition modelShape :: Model where
  "modelShape = plainModel ''Shape'' [idField ''Int'', shapeOutline]"

text \<open>The parsed schema text of a list of models without attributes.\<close>

definition astOf :: "Model \<Rightarrow> AstModel" where
  "astOf m = \<lparr>am_name = m_name m,
              am_properties = map (\<lambda>f. \<lparr>af_name = f_name f, af_attributes = None\<rparr>) (m_fields m)\<rparr>"

definition withAst :: "Model list \<Rightarrow> GeneratorOptions" where
  "withAst ms = \<lparr>o_models = ms, o_enums = [], o_datamodel = map astOf ms\<rparr>"


text \<open>Whether the output text of a run exists and contains a given text.\<close>

definition outputContains :: "error + string \<Rightarrow> string \<Rightarrow> bool" where
  "outputContains r x = (case r of Inl e \<Rightarrow> False | Inr out \<Rightarrow> sublist x out)"

text \<open>The output of the SQLite generator for \<open>Profile\<close>.\<close>

definition profileSqliteOutput :: string where
  "profileSqliteOutput =
     ''import { relations } from '' @ SQ @ ''drizzle-orm'' @ SQ @ NL
     @ ''import { int, sqliteTable } from '' @ SQ @ ''drizzle-orm/sqlite-core'' @ SQ @ NL @ NL
     @ ''export const Profile = sqliteTable('' @ SQ @ ''Profile'' @ SQ @ '', {'' @ NL
     @ TAB @ ''id: int('' @ SQ @ ''id'' @ SQ @ '').notNull().primaryKey(),'' @ NL
     @ TAB @ ''userId: int('' @ SQ @ ''userId'' @ SQ @ '').notNull().references(() => Owner.id)'' @ NL
     @ ''});'' @ NL @ NL
     @ ''export const ProfileRelations = relations(Profile, ({ one }) => ({'' @ NL
     @ TAB @ ''user: one(Owner, {'' @ NL
     @ TAB @ TAB @ ''relationName: '' @ SQ @ ''OwnerToProfile'' @ SQ @ '','' @ NL
     @ TAB @ TAB @ ''fields: [Profile.userId],'' @ NL
     @ TAB @ TAB @ ''references: [Owner.id]'' @ NL
     @ TAB @ ''})'' @ NL
     @ ''}));''"

text \<open>The output of the Postgres generator for the scenario.\<close>

definition scenarioOutput :: string where
  "scenarioOutput =
     ''import { pgTable, serial, text } from '' @ SQ @ ''drizzle-orm/pg-core'' @ SQ @ NL @ NL
     @ ''export const User = pgTable('' @ SQ @ ''User'' @ SQ @ '', {'' @ NL
     @ TAB @ ''id: serial('' @ SQ @ ''id'' @ SQ @ '').notNull().primaryKey(),'' @ NL
     @ TAB @ ''email: text('' @ SQ @ ''email'' @ SQ @ '').notNull().unique()'' @ NL
     @ ''});''"

text \<open>The table the MySQL generator emits for \<open>Count\<close>.\<close>

definition countTable :: string where
  "countTable =
     ''export const Count = mysqlTable('' @ SQ @ ''Count'' @ SQ @ '', {'' @ NL
     @ TAB @ ''n: int('' @ SQ @ ''n'' @ SQ @ '').notNull()'' @ NL
     @ ''});''"

text \<open>The outputs of the SQLite generator for \<open>File\<close> and for \<open>Shape\<close>.\<close>

definition fileSqliteOutput :: string where
  "fileSqliteOutput =
     ''import { blob, int, sqliteTable } from '' @ SQ @ ''drizzle-orm/sqlite-core'' @ SQ @ NL @ NL
     @ ''export const File = sqliteTable('' @ SQ @ ''File'' @ SQ @ '', {'' @ NL
     @ TAB @ ''id: int('' @ SQ @ ''id'' @ SQ @ '').notNull().primaryKey(),'' @ NL
     @ TAB @ ''data: blob('' @ SQ @ ''data'' @ SQ @ '', { mode: '' @ SQ @ ''buffer'' @ SQ @ '' }).notNull()'' @ NL
     @ ''});''"

definition shapeSqliteOutput :: string where
  "shapeSqliteOutput =
     ''import { int, sqliteTable } from '' @ SQ @ ''drizzle-orm/sqlite-core'' @ SQ @ NL @ NL
     @ ''export const Shape = sqliteTable('' @ SQ @ ''Shape'' @ SQ @ '', {'' @ NL
     @ TAB @ ''id: int('' @ SQ @ ''id'' @ SQ @ '').notNull().primaryKey()'' @ NL
     @ ''});''"

text \<open>Notions used in the proofs below: a computation that does not throw; a field that is
  no relation and whose default, if any, is not \<open>dbgenerated\<close>; a schema of such fields;
  and two stores that differ only in fields that have a relation name in both.\<close>

definition succeeds :: "'a gen \<Rightarrow> bool" where
  "succeeds m = (\<exists>y. fst m = Inr y)"

definition plainField :: "Field \<Rightarrow> bool" where
  "plainField f =
     (\<not> truthy (f_relationName f) \<and> f_relationFromFields f = None
      \<and> (case f_default f of Some (DefCall nm args) \<Rightarrow> nm \<noteq> ''dbgenerated'' | _ \<Rightarrow> True))"

definition plainSchema :: "GeneratorOptions \<Rightarrow> bool" where
  "plainSchema options = list_all (\<lambda>m. list_all plainField (m_fields m)) (o_models options)"

definition changedOnlyRelations :: "Model list \<Rightarrow> Model list \<Rightarrow> bool" where
  "changedOnlyRelations ms ms' =
     (length ms' = length ms
      \<and> (\<forall>i. length (m_fields (ms' ! i)) = length (m_fields (ms ! i)))
      \<and> (\<forall>r. fieldAt ms' r = fieldAt ms r
             \<or> (f_relationName (fieldAt ms r) \<noteq> None \<and> f_relationName (fieldAt ms' r) \<noteq> None)))"

text \<open>An \<open>add\<close> call that changes nothing: the name is in the set already.\<close>

definition absorbed :: "Imports \<Rightarrow> ImportAdd \<Rightarrow> bool" where
  "absorbed st a = (case a of Dialect x \<Rightarrow> x \<in> set (dialectImports st)
                             | Drizzle x \<Rightarrow> x \<in> set (drizzleImports st))"

section \<open>Many-to-many synthesis: what the code does\<close>

text \<open>
  C1. For two models that each declare a list relation field to the other under one
  relation name, the join model is to be named \<open>{First}To{Second}\<close> with the two
  referenced model names in ascending order. The code names it
  \<open>{manySecond.type}To{manyFirst.type}\<close>, which follows the order of the models in the
  input. When \<open>Tag\<close> is declared before \<open>Post\<close> the join model is called \<open>TagToPost\<close>,
  while \<open>generateJoinFields\<close>, which does sort, has rewritten both relation fields to
  point to \<open>PostToTag\<close>.
\<close>

theorem C1_join_model_name_follows_input_order:
  "map_sum id
     (\<lambda>(joins, models).
        (map m_name joins,
         map (\<lambda>m. map f_type (filter (\<lambda>f. f_kind f = Object) (m_fields m))) models))
     (extractManyToManyModels codeUnitCompare [modelTag, modelPost])
   = Inr ([''TagToPost''], [[''PostToTag''], [''PostToTag'']])"
  by code_simp

text \<open>With \<open>Post\<close> declared first the name is the sorted one, and the two scalar columns
  are \<open>A\<close> and \<open>B\<close>, typed as the id of the model each refers to.\<close>

lemma join_model_of_Post_and_Tag:
  "map_sum id
     (\<lambda>(joins, models).
        map (\<lambda>j. (m_name j, map (\<lambda>f. (f_name f, f_dbName f, f_type f))
                                (filter (\<lambda>f. f_kind f = Scalar) (m_fields j)))) joins)
     (extractManyToManyModels codeUnitCompare [modelPost, modelTag])
   = Inr [(''PostToTag'', [(''TagId'', Some ''A'', ''String''), (''PostId'', Some ''B'', ''Int'')])]"
  by code_simp

text \<open>
  C3. Every qualifying group of two implicit many-to-many fields is to be processed into
  its own join model, whatever happens to other groups. In the code the filter of the
  recursive call compares with \<open>manyFirst.relationName\<close> after \<open>generateJoinFields\<close> has
  renamed it, so the partner of a processed pair stays in the work list; when it reaches
  the head it has no partner and the early return ends the synthesis. With the two
  relations \<open>Post\<close>--\<open>Tag\<close> and \<open>User\<close>--\<open>Group\<close>, declared in this order, only the first
  gets a join model and the fields of the second are left as they were.
\<close>

theorem C3_second_group_is_dropped:
  "map_sum id
     (\<lambda>(joins, models). (map m_name joins, models ! 2 = modelUser \<and> models ! 3 = modelGroup))
     (extractManyToManyModels codeUnitCompare [modelPost, modelTag, modelUser, modelGroup])
   = Inr ([''PostToTag''], True)"
  by code_simp

section \<open>Escaping\<close>

text \<open>
  C8. Every text put between quotes or backticks in the output is to pass through the
  Escaper, the values of an enum among them. They do not: the Postgres generator escapes
  the name of the enum and prints each value between single quotes as it is (and so does
  \<open>mysqlEnum\<close> in every revision of the MySQL generator). For
  \<open>enum Mood { HAPPY @map("it's fine") }\<close> the quote of the value ends the literal.
\<close>

theorem C8_enum_value_is_not_escaped:
  "fst (generatePgSchema codeUnitCompare moodOptions pgImportsInit) =
     Inr (''import { pgEnum, pgTable } from '' @ SQ @ ''drizzle-orm/pg-core'' @ SQ @ NL @ NL
          @ ''export const Mood = pgEnum('' @ SQ @ ''Mood'' @ SQ @ '', [''
          @ SQ @ ''it'' @ SQ @ ''s fine'' @ SQ @ ''])'')"
  by code_simp

text \<open>The first MySQL generator escapes nothing: the argument of \<open>dbgenerated\<close> goes between
  the backticks as it is, where the Postgres generator escapes the backtick.\<close>

lemma dbgenerated_argument_in_the_first_mysql_generator:
  "prismaToDrizzleColumn_mysql noteField []
     = (Inr (Some (TAB @ ''note: varchar('' @ SQ @ ''note'' @ SQ @ '', { length: 191 }).notNull()''
                   @ ''.default(sql'' @ BT @ ''a'' @ BT @ ''b'' @ BT @ '')'')),
        [Dialect ''varchar'', Drizzle ''sql''])
   \<and> prismaToDrizzleColumn_pg noteField None
     = (Inr (Some (TAB @ ''note: text('' @ SQ @ ''note'' @ SQ @ '').notNull()''
                   @ ''.default(sql'' @ BT @ ''a'' @ BS @ BT @ ''b'' @ BT @ '')'')),
        [Dialect ''text'', Drizzle ''sql''])"
  by code_simp

section \<open>Laws of the bookkeeping\<close>

lemma adding_Nil: "adding [] m = m"
  by (simp add: adding_def)

lemma adding_adding: "adding l1 (adding l2 m) = adding (l1 @ l2) m"
  by (simp add: adding_def)

lemma fst_adding: "fst (adding l m) = fst m"
  by (simp add: adding_def)

lemma snd_adding: "snd (adding l m) = l @ snd m"
  by (simp add: adding_def)

lemma bindG_ret: "bindG (ret x) f = f x"
  by (simp add: bindG_def ret_def adding_def)

lemma bindG_throw: "bindG (throw e) f = throw e"
  by (simp add: bindG_def throw_def)

lemma bindG_ret_right: "bindG m ret = m"
  by (cases m; cases "fst m") (auto simp: bindG_def ret_def adding_def)

lemma bindG_adding: "bindG (adding l m) f = adding l (bindG m f)"
  by (cases "fst m") (simp_all add: bindG_def adding_def)

lemma bindG_assoc: "bindG (bindG m f) g = bindG m (\<lambda>x. bindG (f x) g)"
proof (cases "fst m")
  case (Inl e)
  then show ?thesis by (simp add: bindG_def)
next
  case (Inr x)
  then have "bindG m f = adding (snd m) (f x)" and "bindG m (\<lambda>x. bindG (f x) g) = adding (snd m) (bindG (f x) g)"
    by (simp_all add: bindG_def)
  then show ?thesis by (simp add: bindG_adding)
qed

lemma bindG_Inl: "fst m = Inl e \<Longrightarrow> fst (bindG m f) = Inl e"
  by (simp add: bindG_def)

lemma bindG_lift_Inl: "bindG (lift (Inl e)) f = throw e"
  by (simp add: bindG_def lift_def throw_def)

lemma bindG_lift_Inr: "bindG (lift (Inr x)) f = f x"
  by (simp add: bindG_def lift_def adding_def)

lemma bindG_Inr_iff:
  "bindG m f = (Inr y, l) \<longleftrightarrow> (\<exists>x l1 l2. m = (Inr x, l1) \<and> f x = (Inr y, l2) \<and> l = l1 @ l2)"
  by (cases m; cases "fst m"; cases "f (projr (fst m))") (auto simp: bindG_def adding_def)


section \<open>The import sets across runs\<close>

lemma applyAdd_absorbed: "absorbed st a \<Longrightarrow> applyAdd st a = st"
  by (cases a) (simp_all add: absorbed_def setAdd_def)

lemma absorbed_applyAdd_same: "absorbed (applyAdd st a) a"
  by (cases a) (simp_all add: absorbed_def setAdd_def)

lemma absorbed_applyAdd_mono: "absorbed st a \<Longrightarrow> absorbed (applyAdd st b) a"
  by (cases a; cases b) (simp_all add: absorbed_def setAdd_def)

lemma absorbed_applyAdds_mono: "absorbed st a \<Longrightarrow> absorbed (applyAdds st adds) a"
  unfolding applyAdds_def
  by (induction adds arbitrary: st) (simp_all add: absorbed_applyAdd_mono)

lemma absorbed_applyAdds: "a \<in> set adds \<Longrightarrow> absorbed (applyAdds st adds) a"
  unfolding applyAdds_def
proof (induction adds arbitrary: st)
  case Nil
  then show ?case by simp
next
  case (Cons b adds)
  show ?case
  proof (cases "a = b")
    case True
    have "absorbed (applyAdds (applyAdd st b) adds) b"
      by (rule absorbed_applyAdds_mono) (rule absorbed_applyAdd_same)
    with True show ?thesis by (simp add: applyAdds_def)
  next
    case False
    with Cons.prems have "a \<in> set adds" by simp
    then show ?thesis using Cons.IH by simp
  qed
qed

lemma applyAdds_all_absorbed: "\<forall>a \<in> set adds. absorbed st a \<Longrightarrow> applyAdds st adds = st"
  unfolding applyAdds_def
  by (induction adds arbitrary: st) (simp_all add: applyAdd_absorbed)

lemma applyAdds_idem: "applyAdds (applyAdds st adds) adds = applyAdds st adds"
  by (rule applyAdds_all_absorbed) (simp add: absorbed_applyAdds)

lemma finish_twice: "finish lc core (snd (finish lc core st run)) run = finish lc core st run"
  by (simp add: finish_def Let_def applyAdds_idem)


text \<open>
  C2, as the claim states it: the imports-used sets are allocated fresh at the start of
  every invocation. They are not: they are module-level and keep what earlier runs put
  in. After a run on \<open>model Flag { on Boolean }\<close> the MySQL set is no longer the initial
  one, and the output for \<open>model Count { n Int }\<close> then imports \<open>boolean\<close>, which a run
  from the initial state does not.
\<close>

theorem C2_imports_survive_a_run:
  "generateMySqlSchema codeUnitCompare countOptions
     (snd (generateMySqlSchema codeUnitCompare flagOptions mySqlImportsInit))
     = (Inr (''import { boolean, int, mysqlTable } from '' @ SQ @ ''drizzle-orm/mysql-core'' @ SQ
             @ NL @ NL @ countTable),
        \<lparr>dialectImports = [''mysqlTable'', ''boolean'', ''int''], drizzleImports = []\<rparr>)
   \<and> generateMySqlSchema codeUnitCompare countOptions mySqlImportsInit
     = (Inr (''import { int, mysqlTable } from '' @ SQ @ ''drizzle-orm/mysql-core'' @ SQ
             @ NL @ NL @ countTable),
        \<lparr>dialectImports = [''mysqlTable'', ''int''], drizzleImports = []\<rparr>)"
  by code_simp

text \<open>
  C2, amended: the sets persist across invocations, and still two successive invocations
  of a generator on the same input return the same result (the same output text or the
  same error), from whatever state the first one starts; the second leaves the sets as
  it found them.
\<close>

theorem C2_second_run_repeats_first:
  "generateMySqlSchema lc options (snd (generateMySqlSchema lc options st))
     = generateMySqlSchema lc options st
   \<and> generatePgSchema lc options (snd (generatePgSchema lc options st))
     = generatePgSchema lc options st
   \<and> generateSQLiteSchema lc options (snd (generateSQLiteSchema lc options st))
     = generateSQLiteSchema lc options st"
  by (simp add: generateMySqlSchema_def generatePgSchema_def generateSQLiteSchema_def finish_twice)

section \<open>Foreign keys\<close>

lemma foreignKeyDecl_Inr:
  assumes "foreignKeyDecl w q esc T f froms = (Inr d, adds)"
  shows "\<exists>da tos. deleteActionOf w (fkeyNameOf esc T f) (f_relationOnDelete f) = Inr da
           \<and> f_relationToFields f = Some tos
           \<and> d = TAB @ (if q then SQ @ fkeyNameOf esc T f @ SQ else fkeyNameOf esc T f) @ '': ''
                  @ foreignKeyCall T f (fkeyNameOf esc T f) froms tos @ foreignKeyActions da
           \<and> adds = [Dialect ''foreignKey'']"
proof (cases "deleteActionOf w (fkeyNameOf esc T f) (f_relationOnDelete f)")
  case (Inl e)
  with assms show ?thesis
    by (simp add: foreignKeyDecl_def Let_def bindG_lift_Inl throw_def)
next
  case (Inr da)
  with assms show ?thesis
    by (cases "f_relationToFields f")
      (simp_all add: foreignKeyDecl_def Let_def bindG_lift_Inr adding_def throw_def ret_def)
qed

lemma relationInline_Some:
  assumes "relationInline q esc T f cols = (Inr (Some d, cols'), adds)"
  shows "\<exists>froms. f_relationFromFields f = Some froms \<and> froms \<noteq> []
           \<and> foreignKeyDecl False q esc T f froms = (Inr d, adds) \<and> cols' = cols"
proof (cases "f_relationFromFields f")
  case None
  with assms show ?thesis by (simp add: relationInline_def ret_def)
next
  case (Some froms)
  show ?thesis
  proof (cases "froms = [] \<or> (length froms = 1 \<and> (case f_relationToFields f of None \<Rightarrow> False | Some tos \<Rightarrow> length tos = 1))")
    case True
    with assms Some show ?thesis by (auto simp: relationInline_def ret_def split: if_splits)
  next
    case False
    with assms Some have "bindG (foreignKeyDecl False q esc T f froms) (\<lambda>d. ret (Some d, cols)) = (Inr (Some d, cols'), adds)"
      by (auto simp: relationInline_def split: if_splits)
    then show ?thesis using Some False
      by (auto simp: bindG_Inr_iff ret_def)
  qed
qed

lemma relationPg_Some:
  assumes "relationPg T f cols = (Inr (Some d, cols'), adds)"
  shows "\<exists>froms. f_relationFromFields f = Some froms \<and> froms \<noteq> []
           \<and> foreignKeyDecl True True (\<lambda>x. s x SingleQuote) T f froms = (Inr d, adds) \<and> cols' = cols"
proof (cases "f_relationFromFields f")
  case None
  with assms show ?thesis by (simp add: relationPg_def ret_def)
next
  case (Some froms)
  show ?thesis
  proof (cases "froms = []")
    case True
    with assms Some show ?thesis by (auto simp: relationPg_def ret_def)
  next
    case False
    with assms Some have "bindG (foreignKeyDecl True True (\<lambda>x. s x SingleQuote) T f froms) (\<lambda>d. ret (Some d, cols)) = (Inr (Some d, cols'), adds)"
      by (auto simp: relationPg_def)
    then show ?thesis using Some False
      by (auto simp: bindG_Inr_iff ret_def)
  qed
qed

lemma foreignKeyActions_no_action:
  "foreignKeyActions ''no action'' = NL @ TAB @ TAB @ ''.onUpdate('' @ SQ @ ''cascade'' @ SQ @ '')''"
  by (simp add: foreignKeyActions_def)

lemma foreignKeyActions_cascade:
  "foreignKeyActions ''cascade'' = NL @ TAB @ TAB @ ''.onDelete('' @ SQ @ ''cascade'' @ SQ @ '')''
      @ NL @ TAB @ TAB @ ''.onUpdate('' @ SQ @ ''cascade'' @ SQ @ '')''"
  by (simp add: foreignKeyActions_def)

lemma deleteActionOf_NoAction: "deleteActionOf w n (Some ''NoAction'') = Inr ''no action''"
  by (simp add: deleteActionOf_def)

lemma deleteActionOf_None: "deleteActionOf w n None = Inr ''cascade''"
  by (simp add: deleteActionOf_def)


text \<open>
  C10. A relation field emitted as a separate \<open>foreignKey\<close> declaration whose delete
  action is \<open>NoAction\<close>: the declaration is the key, the \<open>foreignKey\<close> call and
  \<open>.onUpdate('cascade')\<close>, with no \<open>.onDelete(...)\<close> call between or after them. This
  holds for the step of the MySQL and SQLite generators (\<open>relationInline\<close>) and for the
  step of the Postgres generator (\<open>relationPg\<close>).
\<close>

theorem C10_no_action_emits_no_onDelete:
  assumes "f_relationOnDelete field = Some ''NoAction''"
  shows "(relationInline quoteKey esc schemaTable field columnFields = (Inr (Some d, columnFields'), adds)
            \<longrightarrow> d = TAB @ (if quoteKey then SQ @ fkeyNameOf esc schemaTable field @ SQ
                           else fkeyNameOf esc schemaTable field) @ '': ''
                    @ foreignKeyCall schemaTable field (fkeyNameOf esc schemaTable field)
                        (the (f_relationFromFields field)) (the (f_relationToFields field))
                    @ NL @ TAB @ TAB @ ''.onUpdate('' @ SQ @ ''cascade'' @ SQ @ '')'')
       \<and> (relationPg schemaTable field columnFields = (Inr (Some d, columnFields'), adds)
            \<longrightarrow> d = TAB @ SQ @ fkeyNameOf (\<lambda>x. s x SingleQuote) schemaTable field @ SQ @ '': ''
                    @ foreignKeyCall schemaTable field (fkeyNameOf (\<lambda>x. s x SingleQuote) schemaTable field)
                        (the (f_relationFromFields field)) (the (f_relationToFields field))
                    @ NL @ TAB @ TAB @ ''.onUpdate('' @ SQ @ ''cascade'' @ SQ @ '')'')"
proof (intro conjI impI)
  assume "relationInline quoteKey esc schemaTable field columnFields = (Inr (Some d, columnFields'), adds)"
  then obtain froms where fr: "f_relationFromFields field = Some froms"
    and fk: "foreignKeyDecl False quoteKey esc schemaTable field froms = (Inr d, adds)"
    using relationInline_Some by blast
  from foreignKeyDecl_Inr[OF fk] assms fr
  show "d = TAB @ (if quoteKey then SQ @ fkeyNameOf esc schemaTable field @ SQ
                           else fkeyNameOf esc schemaTable field) @ '': ''
                    @ foreignKeyCall schemaTable field (fkeyNameOf esc schemaTable field)
                        (the (f_relationFromFields field)) (the (f_relationToFields field))
                    @ NL @ TAB @ TAB @ ''.onUpdate('' @ SQ @ ''cascade'' @ SQ @ '')''"
    by (auto simp: deleteActionOf_NoAction foreignKeyActions_no_action)
next
  assume "relationPg schemaTable field columnFields = (Inr (Some d, columnFields'), adds)"
  then obtain froms where fr: "f_relationFromFields field = Some froms"
    and fk: "foreignKeyDecl True True (\<lambda>x. s x SingleQuote) schemaTable field froms = (Inr d, adds)"
    using relationPg_Some by blast
  from foreignKeyDecl_Inr[OF fk] assms fr
  show "d = TAB @ SQ @ fkeyNameOf (\<lambda>x. s x SingleQuote) schemaTable field @ SQ @ '': ''
                    @ foreignKeyCall schemaTable field (fkeyNameOf (\<lambda>x. s x SingleQuote) schemaTable field)
                        (the (f_relationFromFields field)) (the (f_relationToFields field))
                    @ NL @ TAB @ TAB @ ''.onUpdate('' @ SQ @ ''cascade'' @ SQ @ '')''"
    by (auto simp: deleteActionOf_NoAction foreignKeyActions_no_action)
qed

theorem C10_no_action_witness:
  "f_relationOnDelete (lineOrder (Some ''NoAction'')) = Some ''NoAction''
   \<and> relationPg (modelLine (Some ''NoAction'')) (lineOrder (Some ''NoAction'')) []
       = (Inr (Some (lineDecl (NL @ TAB @ TAB @ ''.onUpdate('' @ SQ @ ''cascade'' @ SQ @ '')'')), []),
          [Dialect ''foreignKey''])
   \<and> lineDecl (NL @ TAB @ TAB @ ''.onUpdate('' @ SQ @ ''cascade'' @ SQ @ '')'')
       = TAB @ SQ @ fkeyNameOf (\<lambda>x. s x SingleQuote) (modelLine (Some ''NoAction''))
                     (lineOrder (Some ''NoAction'')) @ SQ @ '': ''
         @ foreignKeyCall (modelLine (Some ''NoAction'')) (lineOrder (Some ''NoAction''))
             (fkeyNameOf (\<lambda>x. s x SingleQuote) (modelLine (Some ''NoAction''))
                (lineOrder (Some ''NoAction'')))
             (the (f_relationFromFields (lineOrder (Some ''NoAction''))))
             (the (f_relationToFields (lineOrder (Some ''NoAction''))))
         @ NL @ TAB @ TAB @ ''.onUpdate('' @ SQ @ ''cascade'' @ SQ @ '')''
   \<and> \<not> sublist ''onDelete'' (lineDecl (NL @ TAB @ TAB @ ''.onUpdate('' @ SQ @ ''cascade'' @ SQ @ '')''))"
proof -
  have h: "f_relationOnDelete (lineOrder (Some ''NoAction'')) = Some ''NoAction''"
    by code_simp
  have r: "relationPg (modelLine (Some ''NoAction'')) (lineOrder (Some ''NoAction'')) []
       = (Inr (Some (lineDecl (NL @ TAB @ TAB @ ''.onUpdate('' @ SQ @ ''cascade'' @ SQ @ '')'')), []),
          [Dialect ''foreignKey''])"
    by code_simp
  have n: "\<not> sublist ''onDelete'' (lineDecl (NL @ TAB @ TAB @ ''.onUpdate('' @ SQ @ ''cascade'' @ SQ @ '')''))"
    by code_simp
  note t = C10_no_action_emits_no_onDelete[OF h, THEN conjunct2, THEN mp, OF r]
  show ?thesis
    by (intro conjI h r t n)
qed

text \<open>
  C4, as the claim states it: a relation that owns its columns and has no delete action
  gets \<open>onDelete('cascade')\<close> and \<open>onUpdate('cascade')\<close>, also when it has a single
  column on a dialect that inlines the reference. For
  \<open>user Owner @relation(fields: [userId], references: [id])\<close> the SQLite generator (and
  the MySQL one, which has the same branch) emits \<open>.references(() => Owner.id)\<close> on the
  column and nothing else: the output has neither call.
\<close>

theorem C4_inline_reference_has_no_cascade:
  "fst (generateSQLiteSchema codeUnitCompare (dmmfOnly [modelProfile]) sqliteImportsInit)
     = Inr profileSqliteOutput
   \<and> \<not> sublist ''onDelete'' profileSqliteOutput
   \<and> \<not> sublist ''onUpdate'' profileSqliteOutput"
  by code_simp

text \<open>
  C4, amended: when the delete action is unspecified, every separate \<open>foreignKey\<close>
  declaration ends in \<open>.onDelete('cascade')\<close> and \<open>.onUpdate('cascade')\<close>, on all three
  dialects; a relation with one column on each side is, on MySQL and SQLite, inlined as
  \<open>.references(...)\<close> on its column and gets no declaration.
\<close>

theorem C4_cascade_on_separate_declarations:
  assumes "f_relationOnDelete field = None"
  shows "(relationInline quoteKey esc schemaTable field columnFields = (Inr (Some d, columnFields'), adds)
            \<longrightarrow> d = TAB @ (if quoteKey then SQ @ fkeyNameOf esc schemaTable field @ SQ
                           else fkeyNameOf esc schemaTable field) @ '': ''
                    @ foreignKeyCall schemaTable field (fkeyNameOf esc schemaTable field)
                        (the (f_relationFromFields field)) (the (f_relationToFields field))
                    @ NL @ TAB @ TAB @ ''.onDelete('' @ SQ @ ''cascade'' @ SQ @ '')''
                    @ NL @ TAB @ TAB @ ''.onUpdate('' @ SQ @ ''cascade'' @ SQ @ '')'')
       \<and> (relationPg schemaTable field columnFields = (Inr (Some d, columnFields'), adds)
            \<longrightarrow> d = TAB @ SQ @ fkeyNameOf (\<lambda>x. s x SingleQuote) schemaTable field @ SQ @ '': ''
                    @ foreignKeyCall schemaTable field (fkeyNameOf (\<lambda>x. s x SingleQuote) schemaTable field)
                        (the (f_relationFromFields field)) (the (f_relationToFields field))
                    @ NL @ TAB @ TAB @ ''.onDelete('' @ SQ @ ''cascade'' @ SQ @ '')''
                    @ NL @ TAB @ TAB @ ''.onUpdate('' @ SQ @ ''cascade'' @ SQ @ '')'')
       \<and> (f_relationFromFields field = Some [thisField] \<and> f_relationToFields field = Some [otherField]
            \<longrightarrow> relationInline quoteKey esc schemaTable field columnFields
                  = ret (None, inlineReference field thisField otherField columnFields))"
proof (intro conjI impI)
  assume "relationInline quoteKey esc schemaTable field columnFields = (Inr (Some d, columnFields'), adds)"
  then obtain froms where fr: "f_relationFromFields field = Some froms"
    and fk: "foreignKeyDecl False quoteKey esc schemaTable field froms = (Inr d, adds)"
    using relationInline_Some by blast
  from foreignKeyDecl_Inr[OF fk] assms fr
  show "d = TAB @ (if quoteKey then SQ @ fkeyNameOf esc schemaTable field @ SQ
                           else fkeyNameOf esc schemaTable field) @ '': ''
                    @ foreignKeyCall schemaTable field (fkeyNameOf esc schemaTable field)
                        (the (f_relationFromFields field)) (the (f_relationToFields field))
                    @ NL @ TAB @ TAB @ ''.onDelete('' @ SQ @ ''cascade'' @ SQ @ '')''
                    @ NL @ TAB @ TAB @ ''.onUpdate('' @ SQ @ ''cascade'' @ SQ @ '')''"
    by (auto simp: deleteActionOf_None foreignKeyActions_cascade)
next
  assume "relationPg schemaTable field columnFields = (Inr (Some d, columnFields'), adds)"
  then obtain froms where fr: "f_relationFromFields field = Some froms"
    and fk: "foreignKeyDecl True True (\<lambda>x. s x SingleQuote) schemaTable field froms = (Inr d, adds)"
    using relationPg_Some by blast
  from foreignKeyDecl_Inr[OF fk] assms fr
  show "d = TAB @ SQ @ fkeyNameOf (\<lambda>x. s x SingleQuote) schemaTable field @ SQ @ '': ''
                    @ foreignKeyCall schemaTable field (fkeyNameOf (\<lambda>x. s x SingleQuote) schemaTable field)
                        (the (f_relationFromFields field)) (the (f_relationToFields field))
                    @ NL @ TAB @ TAB @ ''.onDelete('' @ SQ @ ''cascade'' @ SQ @ '')''
                    @ NL @ TAB @ TAB @ ''.onUpdate('' @ SQ @ ''cascade'' @ SQ @ '')''"
    by (auto simp: deleteActionOf_None foreignKeyActions_cascade)
next
  assume "f_relationFromFields field = Some [thisField] \<and> f_relationToFields field = Some [otherField]"
  then show "relationInline quoteKey esc schemaTable field columnFields
                  = ret (None, inlineReference field thisField otherField columnFields)"
    by (simp add: relationInline_def)
qed


theorem C4_cascade_witness:
  "f_relationOnDelete (lineOrder None) = None
   \<and> relationInline True (\<lambda>x. s x SingleQuote) (modelLine None) (lineOrder None) []
       = (Inr (Some (lineDecl (NL @ TAB @ TAB @ ''.onDelete('' @ SQ @ ''cascade'' @ SQ @ '')''
                               @ NL @ TAB @ TAB @ ''.onUpdate('' @ SQ @ ''cascade'' @ SQ @ '')'')), []),
          [Dialect ''foreignKey''])
   \<and> lineDecl (NL @ TAB @ TAB @ ''.onDelete('' @ SQ @ ''cascade'' @ SQ @ '')''
                @ NL @ TAB @ TAB @ ''.onUpdate('' @ SQ @ ''cascade'' @ SQ @ '')'')
       = TAB @ (if True then SQ @ fkeyNameOf (\<lambda>x. s x SingleQuote) (modelLine None) (lineOrder None) @ SQ
                else fkeyNameOf (\<lambda>x. s x SingleQuote) (modelLine None) (lineOrder None)) @ '': ''
         @ foreignKeyCall (modelLine None) (lineOrder None)
             (fkeyNameOf (\<lambda>x. s x SingleQuote) (modelLine None) (lineOrder None))
             (the (f_relationFromFields (lineOrder None)))
             (the (f_relationToFields (lineOrder None)))
         @ NL @ TAB @ TAB @ ''.onDelete('' @ SQ @ ''cascade'' @ SQ @ '')''
         @ NL @ TAB @ TAB @ ''.onUpdate('' @ SQ @ ''cascade'' @ SQ @ '')''"
proof -
  have h: "f_relationOnDelete (lineOrder None) = None"
    by code_simp
  have r: "relationInline True (\<lambda>x. s x SingleQuote) (modelLine None) (lineOrder None) []
       = (Inr (Some (lineDecl (NL @ TAB @ TAB @ ''.onDelete('' @ SQ @ ''cascade'' @ SQ @ '')''
                               @ NL @ TAB @ TAB @ ''.onUpdate('' @ SQ @ ''cascade'' @ SQ @ '')'')), []),
          [Dialect ''foreignKey''])"
    by code_simp
  note t = C4_cascade_on_separate_declarations[OF h, THEN conjunct1, THEN mp, OF r]
  show ?thesis
    by (intro conjI h r t)
qed

section \<open>Unique indexes\<close>

lemma replaceAll_append: "replaceAll c r (a @ b) = replaceAll c r a @ replaceAll c r b"
  by (simp add: replaceAll_def)

lemma s_append: "s (a @ b) c = s a c @ s b c"
  by (simp add: s_def replaceAll_append)

lemma s_key: "s ''_key'' SingleQuote = ''_key''"
  by (simp add: s_def replaceAll_def)

lemma slice0_key: "slice0 (x @ ''_key'') (int (length (x @ ''_key'')) - 4) = x"
  by (simp add: slice0_def Let_def)

lemma uniqueIndexDecl_unnamed:
  assumes "ix_name idx = None" and "\<And>x. esc (x @ ''_key'') = esc x @ ''_key''"
  shows "uniqueIndexDecl esc T idx =
           TAB @ SQ @ esc (m_name T @ ''_'' @ join ''_'' (ix_fields idx)) @ ''_unique_idx'' @ SQ
           @ '': uniqueIndex('' @ SQ @ esc (m_name T @ ''_'' @ join ''_'' (ix_fields idx)) @ ''_key'' @ SQ
           @ '')'' @ NL @ TAB @ TAB @ ''.on(''
           @ join '', '' (map (\<lambda>f. m_name T @ ''.'' @ f) (ix_fields idx)) @ '')''"
proof -
  define base where "base = m_name T @ ''_'' @ join ''_'' (ix_fields idx)"
  have b: "m_name T @ ''_'' @ join ''_'' (ix_fields idx) @ ''_key'' = base @ ''_key''"
    by (simp add: base_def)
  have e: "esc (base @ ''_key'') = esc base @ ''_key''"
    by (rule assms(2))
  have sl: "slice0 (esc base @ ''_key'') (int (length (esc base @ ''_key'')) - 4) = esc base"
    by (rule slice0_key)
  have "uniqueIndexDecl esc T idx =
           TAB @ SQ @ esc base @ ''_unique_idx'' @ SQ
           @ '': uniqueIndex('' @ SQ @ esc base @ ''_key'' @ SQ
           @ '')'' @ NL @ TAB @ TAB @ ''.on(''
           @ join '', '' (map (\<lambda>f. m_name T @ ''.'' @ f) (ix_fields idx)) @ '')''"
    unfolding uniqueIndexDecl_def Let_def assms(1) nullish_def truthy_def option.case b e sl
    by simp
  then show ?thesis
    unfolding base_def .
qed

lemma uniqueIndexDecl_named:
  assumes "ix_name idx = Some n" and "n \<noteq> []"
  shows "uniqueIndexDecl esc T idx =
           TAB @ SQ @ esc n @ SQ @ '': uniqueIndex('' @ SQ @ esc n @ SQ
           @ '')'' @ NL @ TAB @ TAB @ ''.on(''
           @ join '', '' (map (\<lambda>f. m_name T @ ''.'' @ f) (ix_fields idx)) @ '')''"
  using assms by (simp add: uniqueIndexDecl_def Let_def nullish_def truthy_def)


text \<open>
  C7, as the claim states it: a unique index whose source name ends in \<open>_key\<close> has its key
  re-suffixed to \<open>_unique_idx\<close>. The code does not look at the suffix: it re-suffixes
  exactly when the index has no name of its own. An index named \<open>email_key\<close> by the user
  keeps that key.
\<close>

theorem C7_named_key_suffix_is_kept:
  "uniqueIndexDecl (\<lambda>x. x) (plainModel ''User'' []) namedIndex
     = TAB @ SQ @ ''email_key'' @ SQ @ '': uniqueIndex('' @ SQ @ ''email_key'' @ SQ @ '')''
       @ NL @ TAB @ TAB @ ''.on(User.email)''
   \<and> \<not> sublist ''_unique_idx'' (uniqueIndexDecl (\<lambda>x. x) (plainModel ''User'' []) namedIndex)"
  by code_simp

text \<open>
  C7, amended: for a unique index without a name the name \<open>{model}_{fields}_key\<close> is made
  up, passed to \<open>uniqueIndex\<close>, and re-suffixed to \<open>_unique_idx\<close> for the key of the
  declaration; for a unique index with a (non-empty) name of its own, that name is the key
  and the argument of \<open>uniqueIndex\<close>, as it is in the first MySQL generator and escaped
  for the single-quoted literal in the others, whether or not it ends in \<open>_key\<close>.
\<close>

theorem C7_key_follows_presence_of_name:
  assumes "esc = (\<lambda>x. x) \<or> esc = (\<lambda>x. s x SingleQuote)"
  shows "(ix_name idx = None \<longrightarrow>
            uniqueIndexDecl esc T idx =
              TAB @ SQ @ esc (m_name T @ ''_'' @ join ''_'' (ix_fields idx)) @ ''_unique_idx'' @ SQ
              @ '': uniqueIndex('' @ SQ @ esc (m_name T @ ''_'' @ join ''_'' (ix_fields idx)) @ ''_key'' @ SQ
              @ '')'' @ NL @ TAB @ TAB @ ''.on(''
              @ join '', '' (map (\<lambda>f. m_name T @ ''.'' @ f) (ix_fields idx)) @ '')'')
       \<and> (\<forall>n. ix_name idx = Some n \<and> n \<noteq> [] \<longrightarrow>
            uniqueIndexDecl esc T idx =
              TAB @ SQ @ esc n @ SQ @ '': uniqueIndex('' @ SQ @ esc n @ SQ
              @ '')'' @ NL @ TAB @ TAB @ ''.on(''
              @ join '', '' (map (\<lambda>f. m_name T @ ''.'' @ f) (ix_fields idx)) @ '')'')"
proof -
  have k: "\<And>x. esc (x @ ''_key'') = esc x @ ''_key''"
    using assms by (auto simp: s_append s_key)
  show ?thesis
    using uniqueIndexDecl_unnamed[where esc = esc, OF _ k] uniqueIndexDecl_named by blast
qed

theorem C7_key_witness:
  "((\<lambda>x. s x SingleQuote) = (\<lambda>x. x) \<or> (\<lambda>x. s x SingleQuote) = (\<lambda>x. s x SingleQuote))
   \<and> ix_name unnamedIndex = None
   \<and> uniqueIndexDecl (\<lambda>x. s x SingleQuote) (plainModel ''User'' []) unnamedIndex
       = TAB @ SQ @ ''User_email_unique_idx'' @ SQ @ '': uniqueIndex('' @ SQ @ ''User_email_key'' @ SQ
         @ '')'' @ NL @ TAB @ TAB @ ''.on(User.email)''
   \<and> ix_name namedIndex = Some ''email_key'' \<and> ''email_key'' \<noteq> []
   \<and> uniqueIndexDecl (\<lambda>x. s x SingleQuote) (plainModel ''User'' []) namedIndex
       = TAB @ SQ @ ''email_key'' @ SQ @ '': uniqueIndex('' @ SQ @ ''email_key'' @ SQ
         @ '')'' @ NL @ TAB @ TAB @ ''.on(User.email)''"
proof -
  have e: "(\<lambda>x. s x SingleQuote) = (\<lambda>x. x) \<or> (\<lambda>x. s x SingleQuote) = (\<lambda>x. s x SingleQuote)"
    by simp
  have u: "ix_name unnamedIndex = None"
    by (simp add: unnamedIndex_def)
  have n: "ix_name namedIndex = Some ''email_key'' \<and> ''email_key'' \<noteq> []"
    by (simp add: namedIndex_def)
  have v1: "TAB @ SQ @ s (m_name (plainModel ''User'' []) @ ''_'' @ join ''_'' (ix_fields unnamedIndex)) SingleQuote
              @ ''_unique_idx'' @ SQ @ '': uniqueIndex('' @ SQ
              @ s (m_name (plainModel ''User'' []) @ ''_'' @ join ''_'' (ix_fields unnamedIndex)) SingleQuote
              @ ''_key'' @ SQ @ '')'' @ NL @ TAB @ TAB @ ''.on(''
              @ join '', '' (map (\<lambda>f. m_name (plainModel ''User'' []) @ ''.'' @ f) (ix_fields unnamedIndex)) @ '')''
            = TAB @ SQ @ ''User_email_unique_idx'' @ SQ @ '': uniqueIndex('' @ SQ @ ''User_email_key'' @ SQ
              @ '')'' @ NL @ TAB @ TAB @ ''.on(User.email)''"
    by code_simp
  have v2: "TAB @ SQ @ s ''email_key'' SingleQuote @ SQ @ '': uniqueIndex('' @ SQ @ s ''email_key'' SingleQuote @ SQ
              @ '')'' @ NL @ TAB @ TAB @ ''.on(''
              @ join '', '' (map (\<lambda>f. m_name (plainModel ''User'' []) @ ''.'' @ f) (ix_fields namedIndex)) @ '')''
            = TAB @ SQ @ ''email_key'' @ SQ @ '': uniqueIndex('' @ SQ @ ''email_key'' @ SQ
              @ '')'' @ NL @ TAB @ TAB @ ''.on(User.email)''"
    by code_simp
  note t1 = C7_key_follows_presence_of_name[OF e, of unnamedIndex "plainModel ''User'' []"]
  note t2 = C7_key_follows_presence_of_name[OF e, of namedIndex "plainModel ''User'' []"]
  have a: "uniqueIndexDecl (\<lambda>x. s x SingleQuote) (plainModel ''User'' []) unnamedIndex
       = TAB @ SQ @ ''User_email_unique_idx'' @ SQ @ '': uniqueIndex('' @ SQ @ ''User_email_key'' @ SQ
         @ '')'' @ NL @ TAB @ TAB @ ''.on(User.email)''"
    using t1[THEN conjunct1, THEN mp, OF u] v1 by (rule trans)
  have b: "uniqueIndexDecl (\<lambda>x. s x SingleQuote) (plainModel ''User'' []) namedIndex
       = TAB @ SQ @ ''email_key'' @ SQ @ '': uniqueIndex('' @ SQ @ ''email_key'' @ SQ
         @ '')'' @ NL @ TAB @ TAB @ ''.on(User.email)''"
    using t2[THEN conjunct2, THEN spec, THEN mp, OF n] v2 by (rule trans)
  show ?thesis
    by (intro conjI e u a b n[THEN conjunct1] n[THEN conjunct2])
qed

section \<open>Columns without a mapping\<close>

lemma definedEntries_Cons:
  "definedEntries (e # es) = (if snd e \<noteq> None then [(fst e, the (snd e))] else []) @ definedEntries es"
  by (simp add: definedEntries_def)

lemma mapG_drop:
  assumes "g f = ret (n, None)"
  shows "bindG (mapG g (xs @ f # ys)) (\<lambda>es. k (definedEntries es))
       = bindG (mapG g (xs @ ys)) (\<lambda>es. k (definedEntries es))"
proof (induction xs arbitrary: k)
  case Nil
  show ?case
    by (simp add: assms bindG_ret bindG_assoc definedEntries_Cons)
next
  case (Cons x xs)
  have "bindG (mapG g ((x # xs) @ f # ys)) (\<lambda>es. k (definedEntries es))
      = bindG (g x) (\<lambda>y. bindG (mapG g (xs @ f # ys))
          (\<lambda>es. k ((if snd y \<noteq> None then [(fst y, the (snd y))] else []) @ definedEntries es)))"
    by (simp add: bindG_assoc bindG_ret definedEntries_Cons)
  also have "\<dots> = bindG (g x) (\<lambda>y. bindG (mapG g (xs @ ys))
          (\<lambda>es. k ((if snd y \<noteq> None then [(fst y, the (snd y))] else []) @ definedEntries es)))"
  proof -
    have "\<And>y. bindG (mapG g (xs @ f # ys))
            (\<lambda>es. k ((if snd y \<noteq> None then [(fst y, the (snd y))] else []) @ definedEntries es))
          = bindG (mapG g (xs @ ys))
            (\<lambda>es. k ((if snd y \<noteq> None then [(fst y, the (snd y))] else []) @ definedEntries es))"
      by (rule Cons.IH)
    then show ?thesis by (simp only:)
  qed
  also have "\<dots> = bindG (mapG g ((x # xs) @ ys)) (\<lambda>es. k (definedEntries es))"
    by (simp add: bindG_assoc bindG_ret definedEntries_Cons)
  finally show ?case .
qed

lemma type_mysql_None:
  "fst (prismaToDrizzleType_mysql ty col en) = Inr None \<Longrightarrow> prismaToDrizzleType_mysql ty col en = ret None"
  by (auto simp: prismaToDrizzleType_mysql_def adding_def ret_def throw_def split: option.splits if_splits)

lemma type_pg_None:
  "fst (prismaToDrizzleType_pg ty col dv nt) = Inr None \<Longrightarrow> prismaToDrizzleType_pg ty col dv nt = ret None"
  by (auto simp: prismaToDrizzleType_pg_def Let_def adding_def ret_def throw_def split: option.splits if_splits)

lemma type_sqlite_None:
  "fst (prismaToDrizzleType_sqlite ty col) = Inr None \<Longrightarrow> prismaToDrizzleType_sqlite ty col = ret None"
  by (auto simp: prismaToDrizzleType_sqlite_def Let_def adding_def ret_def throw_def split: option.splits if_splits)


lemma unmapped_mysql:
  assumes "f_type f \<notin> set [''BigInt'', ''Boolean'', ''Bytes'', ''DateTime'', ''Decimal'', ''Float'',
                              ''JSON'', ''Int'', ''String'']"
      and "f_kind f = Enum \<longrightarrow> find (\<lambda>e. e_name e = f_type f) enums = None"
  shows "prismaToDrizzleColumn_mysql f enums = ret None"
proof -
  have "(if f_kind f = Enum then find (\<lambda>e. e_name e = f_type f) enums else None) = None"
    using assms(2) by simp
  then show ?thesis
    using assms(1)
    by (simp add: prismaToDrizzleColumn_mysql_def Let_def prismaToDrizzleType_mysql_def bindG_ret)
qed

lemma unmapped_pg:
  assumes "toLowerCase (f_type f) \<notin> set [''bigint'', ''boolean'', ''bytes'', ''datetime'', ''decimal'',
                                           ''float'', ''json'', ''int'', ''string'']"
      and "f_kind f \<noteq> Enum"
  shows "prismaToDrizzleColumn_pg f nativeType = ret None"
  using assms
  by (simp add: prismaToDrizzleColumn_pg_def Let_def prismaToDrizzleType_pg_def bindG_ret)

lemma unmapped_sqlite:
  assumes "toLowerCase (f_type f) \<notin> set [''bigint'', ''boolean'', ''bytes'', ''datetime'', ''decimal'',
                                           ''float'', ''json'', ''int'', ''string'']"
  shows "prismaToDrizzleColumn_sqlite f = ret None"
  using assms
  by (simp add: prismaToDrizzleColumn_sqlite_def Let_def prismaToDrizzleType_sqlite_def bindG_ret)

lemma columnEntries_mysql_drop:
  assumes "prismaToDrizzleColumn_mysql f enums = ret None"
  shows "columnEntries_mysql enums (xs @ f # ys) = columnEntries_mysql enums (xs @ ys)"
  unfolding columnEntries_mysql_def
  by (rule mapG_drop[where n = "f_name f"]) (simp add: assms bindG_ret)

lemma columnEntries_sqlite_drop:
  assumes "prismaToDrizzleColumn_sqlite f = ret None"
  shows "columnEntries_sqlite (xs @ f # ys) = columnEntries_sqlite (xs @ ys)"
  unfolding columnEntries_sqlite_def
  by (rule mapG_drop[where n = "f_name f"]) (simp add: assms bindG_ret)

lemma columnEntries_pg_drop:
  assumes "\<And>nativeType. prismaToDrizzleColumn_pg f nativeType = ret None"
      and "find (\<lambda>p. af_name p = f_name f) (am_properties modelAst) \<noteq> None"
  shows "columnEntries_pg modelAst (xs @ f # ys) = columnEntries_pg modelAst (xs @ ys)"
  unfolding columnEntries_pg_def
proof (rule mapG_drop[where n = "f_name f"])
  from assms(2) obtain fieldAst where
    "find (\<lambda>p. af_name p = f_name f) (am_properties modelAst) = Some fieldAst"
    by blast
  then show "columnEntry_pg modelAst f = ret (f_name f, None)"
    by (simp add: columnEntry_pg_def Let_def assms(1) bindG_ret)
qed

lemma relFieldsOf_drop:
  assumes "f_relationFromFields f = None"
  shows "relFieldsOf (T\<lparr>m_fields := xs @ f # ys\<rparr>) = relFieldsOf (T\<lparr>m_fields := xs @ ys\<rparr>)"
  using assms by (simp add: relFieldsOf_def)

lemma foreignKeyCall_cong:
  assumes "m_name T = m_name T'"
  shows "foreignKeyCall T = foreignKeyCall T'"
  by (intro ext) (simp add: foreignKeyCall_def assms)

lemma fkeyNameOf_cong:
  assumes "m_name T = m_name T'" and "m_dbName T = m_dbName T'"
  shows "fkeyNameOf esc T = fkeyNameOf esc T'"
  by (intro ext) (simp add: fkeyNameOf_def assms)

lemma foreignKeyDecl_cong:
  assumes "m_name T = m_name T'" and "m_dbName T = m_dbName T'"
  shows "foreignKeyDecl w q esc T = foreignKeyDecl w q esc T'"
proof (intro ext)
  fix field froms
  show "foreignKeyDecl w q esc T field froms = foreignKeyDecl w q esc T' field froms"
    unfolding foreignKeyDecl_def fkeyNameOf_cong[OF assms] foreignKeyCall_cong[OF assms(1)]
    by (rule refl)
qed

lemma relationInline_cong:
  assumes "m_name T = m_name T'" and "m_dbName T = m_dbName T'"
  shows "relationInline q esc T = relationInline q esc T'"
proof (intro ext)
  fix field cols
  show "relationInline q esc T field cols = relationInline q esc T' field cols"
    unfolding relationInline_def foreignKeyDecl_cong[OF assms]
    by (rule refl)
qed

lemma relationPg_cong:
  assumes "m_name T = m_name T'" and "m_dbName T = m_dbName T'"
  shows "relationPg T = relationPg T'"
proof (intro ext)
  fix field cols
  show "relationPg T field cols = relationPg T' field cols"
    unfolding relationPg_def foreignKeyDecl_cong[OF assms]
    by (rule refl)
qed

lemma uniqueIndexDecls_cong:
  assumes "m_name T = m_name T'" and "m_uniqueIndexes T = m_uniqueIndexes T'"
  shows "uniqueIndexDecls esc T = uniqueIndexDecls esc T'"
proof -
  have "\<And>idx. uniqueIndexDecl esc T idx = uniqueIndexDecl esc T' idx"
    unfolding uniqueIndexDecl_def assms(1) by (rule refl)
  then have "uniqueIndexDecl esc T = uniqueIndexDecl esc T'"
    by (intro ext)
  then show ?thesis
    unfolding uniqueIndexDecls_def assms(2) by (simp only:)
qed

lemma primaryKeyDecls_cong:
  assumes "m_name T = m_name T'" and "m_primaryKey T = m_primaryKey T'"
  shows "primaryKeyDecls esc T = primaryKeyDecls esc T'"
  unfolding primaryKeyDecls_def assms by (rule refl)

lemma tableText_cong:
  assumes "m_name T = m_name T'"
  shows "tableText fn T = tableText fn T'"
proof (intro ext)
  fix db cols idx
  show "tableText fn T db cols idx = tableText fn T' db cols idx"
    unfolding tableText_def assms by (rule refl)
qed

lemma rqbRelation_cong:
  assumes "m_name T = m_name T'"
  shows "rqbRelation key relName T = rqbRelation key relName T'"
proof (intro ext)
  fix relFields
  have "\<And>field. rqbField key relName T field = rqbField key relName T' field"
    unfolding rqbField_def assms by (rule refl)
  then have "rqbField key relName T = rqbField key relName T'"
    by (intro ext)
  then show "rqbRelation key relName T relFields = rqbRelation key relName T' relFields"
    unfolding rqbRelation_def assms by (simp only:)
qed

lemma table_mysql_cong:
  assumes "m_name T = m_name T'" and "m_dbName T = m_dbName T'"
      and "m_uniqueIndexes T = m_uniqueIndexes T'" and "m_primaryKey T = m_primaryKey T'"
      and "columnEntries_mysql enums (m_fields T) = columnEntries_mysql enums (m_fields T')"
      and "relFieldsOf T = relFieldsOf T'"
  shows "table_mysql enums T = table_mysql enums T'"
  unfolding table_mysql_def assms(1,2,5,6)
    relationInline_cong[OF assms(1,2)] uniqueIndexDecls_cong[OF assms(1,3)]
    primaryKeyDecls_cong[OF assms(1,4)] tableText_cong[OF assms(1)] rqbRelation_cong[OF assms(1)]
  by (rule refl)

lemma table_sqlite_cong:
  assumes "m_name T = m_name T'" and "m_dbName T = m_dbName T'"
      and "m_uniqueIndexes T = m_uniqueIndexes T'" and "m_primaryKey T = m_primaryKey T'"
      and "columnEntries_sqlite (m_fields T) = columnEntries_sqlite (m_fields T')"
      and "relFieldsOf T = relFieldsOf T'"
  shows "table_sqlite T = table_sqlite T'"
  unfolding table_sqlite_def assms(1,2,5,6)
    relationInline_cong[OF assms(1,2)] uniqueIndexDecls_cong[OF assms(1,3)]
    primaryKeyDecls_cong[OF assms(1,4)] tableText_cong[OF assms(1)] rqbRelation_cong[OF assms(1)]
  by (rule refl)

lemma table_pg_cong:
  assumes "m_name T = m_name T'" and "m_dbName T = m_dbName T'"
      and "m_uniqueIndexes T = m_uniqueIndexes T'" and "m_primaryKey T = m_primaryKey T'"
      and "\<And>modelAst. find (\<lambda>m. am_name m = m_name T') datamodel = Some modelAst \<Longrightarrow>
             columnEntries_pg modelAst (m_fields T) = columnEntries_pg modelAst (m_fields T')"
      and "relFieldsOf T = relFieldsOf T'"
  shows "table_pg datamodel T = table_pg datamodel T'"
proof (cases "find (\<lambda>m. am_name m = m_name T') datamodel")
  case None
  then show ?thesis
    by (simp add: table_pg_def assms(1))
next
  case (Some modelAst)
  show ?thesis
    unfolding table_pg_def assms(1,2,6) Some option.case assms(5)[OF Some]
      relationPg_cong[OF assms(1,2)] uniqueIndexDecls_cong[OF assms(1,3)]
      primaryKeyDecls_cong[OF assms(1,4)] tableText_cong[OF assms(1)] rqbRelation_cong[OF assms(1)]
    by (rule refl)
qed

lemma table_mysql_drop:
  assumes "prismaToDrizzleColumn_mysql f enums = ret None" and "f_relationFromFields f = None"
  shows "table_mysql enums (T\<lparr>m_fields := xs @ f # ys\<rparr>) = table_mysql enums (T\<lparr>m_fields := xs @ ys\<rparr>)"
  by (rule table_mysql_cong)
    (simp_all add: columnEntries_mysql_drop[OF assms(1)] relFieldsOf_drop[OF assms(2)])

lemma table_sqlite_drop:
  assumes "prismaToDrizzleColumn_sqlite f = ret None" and "f_relationFromFields f = None"
  shows "table_sqlite (T\<lparr>m_fields := xs @ f # ys\<rparr>) = table_sqlite (T\<lparr>m_fields := xs @ ys\<rparr>)"
  by (rule table_sqlite_cong)
    (simp_all add: columnEntries_sqlite_drop[OF assms(1)] relFieldsOf_drop[OF assms(2)])

lemma table_pg_drop:
  assumes "\<And>nativeType. prismaToDrizzleColumn_pg f nativeType = ret None"
      and "f_relationFromFields f = None"
      and "\<And>modelAst. find (\<lambda>m. am_name m = m_name T) datamodel = Some modelAst \<Longrightarrow>
             find (\<lambda>p. af_name p = f_name f) (am_properties modelAst) \<noteq> None"
  shows "table_pg datamodel (T\<lparr>m_fields := xs @ f # ys\<rparr>) = table_pg datamodel (T\<lparr>m_fields := xs @ ys\<rparr>)"
proof (rule table_pg_cong)
  fix modelAst
  assume "find (\<lambda>m. am_name m = m_name (T\<lparr>m_fields := xs @ ys\<rparr>)) datamodel = Some modelAst"
  then have "find (\<lambda>p. af_name p = f_name f) (am_properties modelAst) \<noteq> None"
    using assms(3) by simp
  then show "columnEntries_pg modelAst (m_fields (T\<lparr>m_fields := xs @ f # ys\<rparr>))
           = columnEntries_pg modelAst (m_fields (T\<lparr>m_fields := xs @ ys\<rparr>))"
    using columnEntries_pg_drop[OF assms(1)] by simp
qed (simp_all add: relFieldsOf_drop[OF assms(2)])

text \<open>
  C6. A field whose type has no mapping in the dialect (the type is none of the names
  the type mapper knows, binary among them, and the field is no enum the dialect
  resolves): its column is \<open>undefined\<close> without an exception and without an import; the
  entries of the table's columns are those of the table without the field; and, the
  field being a scalar and no relation, the whole result of the table (its text, its
  imports, or its error) is that of the table without the field. On Postgres the field
  has to be present in the parsed schema text, as every field has to be.
\<close>

theorem C6_unmapped_field_is_dropped:
  "(f_type f \<notin> set [''BigInt'', ''Boolean'', ''Bytes'', ''DateTime'', ''Decimal'', ''Float'',
                      ''JSON'', ''Int'', ''String'']
      \<and> (if f_kind f = Enum then find (\<lambda>e. e_name e = f_type f) enums else None) = None \<longrightarrow>
        prismaToDrizzleColumn_mysql f enums = ret None
        \<and> columnEntries_mysql enums (xs @ f # ys) = columnEntries_mysql enums (xs @ ys)
        \<and> (f_relationFromFields f = None \<longrightarrow>
             table_mysql enums (T\<lparr>m_fields := xs @ f # ys\<rparr>)
               = table_mysql enums (T\<lparr>m_fields := xs @ ys\<rparr>)))
   \<and> (toLowerCase (f_type f) \<notin> set [''bigint'', ''boolean'', ''bytes'', ''datetime'', ''decimal'',
                                      ''float'', ''json'', ''int'', ''string''] \<longrightarrow>
        prismaToDrizzleColumn_sqlite f = ret None
        \<and> columnEntries_sqlite (xs @ f # ys) = columnEntries_sqlite (xs @ ys)
        \<and> (f_relationFromFields f = None \<longrightarrow>
             table_sqlite (T\<lparr>m_fields := xs @ f # ys\<rparr>) = table_sqlite (T\<lparr>m_fields := xs @ ys\<rparr>)))
   \<and> (toLowerCase (f_type f) \<notin> set [''bigint'', ''boolean'', ''bytes'', ''datetime'', ''decimal'',
                                      ''float'', ''json'', ''int'', ''string'']
      \<and> f_kind f \<noteq> Enum
      \<and> find (\<lambda>m. am_name m = m_name T) datamodel = Some modelAst
      \<and> find (\<lambda>p. af_name p = f_name f) (am_properties modelAst) = Some fieldAst \<longrightarrow>
        prismaToDrizzleColumn_pg f nativeType = ret None
        \<and> columnEntries_pg modelAst (xs @ f # ys) = columnEntries_pg modelAst (xs @ ys)
        \<and> (f_relationFromFields f = None \<longrightarrow>
             table_pg datamodel (T\<lparr>m_fields := xs @ f # ys\<rparr>)
               = table_pg datamodel (T\<lparr>m_fields := xs @ ys\<rparr>)))"
proof (intro conjI impI)
  assume h: "f_type f \<notin> set [''BigInt'', ''Boolean'', ''Bytes'', ''DateTime'', ''Decimal'', ''Float'',
                      ''JSON'', ''Int'', ''String'']
      \<and> (if f_kind f = Enum then find (\<lambda>e. e_name e = f_type f) enums else None) = None"
  then have e: "f_kind f = Enum \<longrightarrow> find (\<lambda>e. e_name e = f_type f) enums = None"
    by (auto split: if_splits)
  show c: "prismaToDrizzleColumn_mysql f enums = ret None"
    using unmapped_mysql[OF h[THEN conjunct1] e] .
  show "columnEntries_mysql enums (xs @ f # ys) = columnEntries_mysql enums (xs @ ys)"
    using columnEntries_mysql_drop[OF c] .
  assume "f_relationFromFields f = None"
  then show "table_mysql enums (T\<lparr>m_fields := xs @ f # ys\<rparr>)
               = table_mysql enums (T\<lparr>m_fields := xs @ ys\<rparr>)"
    using table_mysql_drop[OF c] by blast
next
  assume h: "toLowerCase (f_type f) \<notin> set [''bigint'', ''boolean'', ''bytes'', ''datetime'', ''decimal'',
                                      ''float'', ''json'', ''int'', ''string'']"
  show c: "prismaToDrizzleColumn_sqlite f = ret None"
    using unmapped_sqlite[OF h] .
  show "columnEntries_sqlite (xs @ f # ys) = columnEntries_sqlite (xs @ ys)"
    using columnEntries_sqlite_drop[OF c] .
  assume "f_relationFromFields f = None"
  then show "table_sqlite (T\<lparr>m_fields := xs @ f # ys\<rparr>) = table_sqlite (T\<lparr>m_fields := xs @ ys\<rparr>)"
    using table_sqlite_drop[OF c] by blast
next
  assume h: "toLowerCase (f_type f) \<notin> set [''bigint'', ''boolean'', ''bytes'', ''datetime'', ''decimal'',
                                      ''float'', ''json'', ''int'', ''string'']
      \<and> f_kind f \<noteq> Enum
      \<and> find (\<lambda>m. am_name m = m_name T) datamodel = Some modelAst
      \<and> find (\<lambda>p. af_name p = f_name f) (am_properties modelAst) = Some fieldAst"
  have c: "prismaToDrizzleColumn_pg f nt = ret None" for nt
    using unmapped_pg h by blast
  show "prismaToDrizzleColumn_pg f nativeType = ret None"
    using c .
  have found: "find (\<lambda>p. af_name p = f_name f) (am_properties modelAst) \<noteq> None"
    using h by simp
  show "columnEntries_pg modelAst (xs @ f # ys) = columnEntries_pg modelAst (xs @ ys)"
    using columnEntries_pg_drop[OF c found] .
  assume r: "f_relationFromFields f = None"
  show "table_pg datamodel (T\<lparr>m_fields := xs @ f # ys\<rparr>)
               = table_pg datamodel (T\<lparr>m_fields := xs @ ys\<rparr>)"
  proof (rule table_pg_drop[OF c r])
    fix ast
    assume "find (\<lambda>m. am_name m = m_name T) datamodel = Some ast"
    with h have "ast = modelAst" by simp
    with found show "find (\<lambda>p. af_name p = f_name f) (am_properties ast) \<noteq> None" by simp
  qed
qed


theorem C6_unmapped_witness:
  "f_type shapeOutline \<notin> set [''BigInt'', ''Boolean'', ''Bytes'', ''DateTime'', ''Decimal'', ''Float'',
                               ''JSON'', ''Int'', ''String'']
   \<and> (if f_kind shapeOutline = Enum then find (\<lambda>e. e_name e = f_type shapeOutline) [] else None) = None
   \<and> toLowerCase (f_type shapeOutline) \<notin> set [''bigint'', ''boolean'', ''bytes'', ''datetime'',
                                                ''decimal'', ''float'', ''json'', ''int'', ''string'']
   \<and> f_kind shapeOutline \<noteq> Enum
   \<and> find (\<lambda>m. am_name m = m_name modelShape) [astOf modelShape] = Some (astOf modelShape)
   \<and> find (\<lambda>p. af_name p = f_name shapeOutline) (am_properties (astOf modelShape))
       = Some \<lparr>af_name = ''outline'', af_attributes = None\<rparr>
   \<and> f_relationFromFields shapeOutline = None
   \<and> table_mysql [] (modelShape\<lparr>m_fields := [idField ''Int''] @ shapeOutline # []\<rparr>)
       = table_mysql [] (modelShape\<lparr>m_fields := [idField ''Int''] @ []\<rparr>)
   \<and> table_sqlite (modelShape\<lparr>m_fields := [idField ''Int''] @ shapeOutline # []\<rparr>)
       = table_sqlite (modelShape\<lparr>m_fields := [idField ''Int''] @ []\<rparr>)
   \<and> table_pg [astOf modelShape] (modelShape\<lparr>m_fields := [idField ''Int''] @ shapeOutline # []\<rparr>)
       = table_pg [astOf modelShape] (modelShape\<lparr>m_fields := [idField ''Int''] @ []\<rparr>)
   \<and> modelShape\<lparr>m_fields := [idField ''Int''] @ shapeOutline # []\<rparr> = modelShape
   \<and> fst (generateSQLiteSchema codeUnitCompare (dmmfOnly [modelShape]) sqliteImportsInit)
       = Inr shapeSqliteOutput"
proof -
  have h1: "f_type shapeOutline \<notin> set [''BigInt'', ''Boolean'', ''Bytes'', ''DateTime'', ''Decimal'', ''Float'',
                               ''JSON'', ''Int'', ''String'']"
    and h2: "(if f_kind shapeOutline = Enum then find (\<lambda>e. e_name e = f_type shapeOutline) [] else None) = None"
    and h3: "toLowerCase (f_type shapeOutline) \<notin> set [''bigint'', ''boolean'', ''bytes'', ''datetime'',
                                                ''decimal'', ''float'', ''json'', ''int'', ''string'']"
    and h4: "f_kind shapeOutline \<noteq> Enum"
    and h5: "find (\<lambda>m. am_name m = m_name modelShape) [astOf modelShape] = Some (astOf modelShape)"
    and h6: "find (\<lambda>p. af_name p = f_name shapeOutline) (am_properties (astOf modelShape))
       = Some \<lparr>af_name = ''outline'', af_attributes = None\<rparr>"
    and h7: "f_relationFromFields shapeOutline = None"
    and same: "modelShape\<lparr>m_fields := [idField ''Int''] @ shapeOutline # []\<rparr> = modelShape"
    by code_simp+
  have v: "fst (generateSQLiteSchema codeUnitCompare (dmmfOnly [modelShape]) sqliteImportsInit)
       = Inr shapeSqliteOutput"
    by code_simp
  note t = C6_unmapped_field_is_dropped[where f = shapeOutline and enums = "[]" and T = modelShape
             and xs = "[idField ''Int'']" and ys = "[]" and datamodel = "[astOf modelShape]"
             and modelAst = "astOf modelShape"
             and fieldAst = "\<lparr>af_name = ''outline'', af_attributes = None\<rparr>"]
  have c1: "table_mysql [] (modelShape\<lparr>m_fields := [idField ''Int''] @ shapeOutline # []\<rparr>)
       = table_mysql [] (modelShape\<lparr>m_fields := [idField ''Int''] @ []\<rparr>)"
    by (rule t[THEN conjunct1, THEN mp, OF conjI[OF h1 h2], THEN conjunct2, THEN conjunct2, THEN mp, OF h7])
  have c2: "table_sqlite (modelShape\<lparr>m_fields := [idField ''Int''] @ shapeOutline # []\<rparr>)
       = table_sqlite (modelShape\<lparr>m_fields := [idField ''Int''] @ []\<rparr>)"
    by (rule t[THEN conjunct2, THEN conjunct1, THEN mp, OF h3, THEN conjunct2, THEN conjunct2, THEN mp, OF h7])
  have c3: "table_pg [astOf modelShape] (modelShape\<lparr>m_fields := [idField ''Int''] @ shapeOutline # []\<rparr>)
       = table_pg [astOf modelShape] (modelShape\<lparr>m_fields := [idField ''Int''] @ []\<rparr>)"
    by (rule t[THEN conjunct2, THEN conjunct2, THEN mp, OF conjI[OF h3 conjI[OF h4 conjI[OF h5 h6]]],
               THEN conjunct2, THEN conjunct2, THEN mp, OF h7])
  show ?thesis
    by (intro conjI h1 h2 h3 h4 h5 h6 h7 c1 c2 c3 same v)
qed

section \<open>Binary columns\<close>

lemma fieldAt_setField:
  "fieldAt (setField ms r f) r' =
     (if r' = r \<and> fst r < length ms \<and> snd r < length (m_fields (ms ! fst r)) then f
      else fieldAt ms r')"
proof (cases "fst r < length ms")
  case False
  then show ?thesis by (simp add: fieldAt_def setField_def list_update_beyond)
next
  case True
  show ?thesis
  proof (cases "fst r' = fst r")
    case False
    then show ?thesis using True by (auto simp: fieldAt_def setField_def)
  next
    case same: True
    show ?thesis
    proof (cases "snd r' = snd r")
      case True
      then have "r' = r" using same by (simp add: prod_eq_iff)
      then show ?thesis using \<open>fst r < length ms\<close>
        by (cases "snd r < length (m_fields (ms ! fst r))")
          (simp_all add: fieldAt_def setField_def list_update_beyond)
    next
      case False
      then show ?thesis using same \<open>fst r < length ms\<close>
        by (auto simp: fieldAt_def setField_def)
    qed
  qed
qed

lemma length_setField: "length (setField ms r f) = length ms"
  by (simp add: setField_def)

lemma fields_length_setField:
  "length (m_fields (setField ms r f ! i)) = length (m_fields (ms ! i))"
proof (cases "i = fst r \<and> fst r < length ms")
  case True
  then show ?thesis by (simp add: setField_def)
next
  case False
  then show ?thesis by (cases "i = fst r") (simp_all add: setField_def list_update_beyond)
qed

lemma changedOnlyRelations_refl: "changedOnlyRelations ms ms"
  by (simp add: changedOnlyRelations_def)

lemma changedOnlyRelationsD:
  assumes "changedOnlyRelations ms ms'"
  shows "fieldAt ms' r = fieldAt ms r
        \<or> (f_relationName (fieldAt ms r) \<noteq> None \<and> f_relationName (fieldAt ms' r) \<noteq> None)"
  using assms unfolding changedOnlyRelations_def by blast

lemma changedOnlyRelations_trans:
  assumes "changedOnlyRelations a b" and "changedOnlyRelations b c"
  shows "changedOnlyRelations a c"
  unfolding changedOnlyRelations_def
proof (intro conjI allI)
  show "length c = length a"
    using assms by (simp add: changedOnlyRelations_def)
  show "length (m_fields (c ! i)) = length (m_fields (a ! i))" for i
    using assms by (simp add: changedOnlyRelations_def)
  show "fieldAt c r = fieldAt a r
        \<or> (f_relationName (fieldAt a r) \<noteq> None \<and> f_relationName (fieldAt c r) \<noteq> None)" for r
  proof -
    from changedOnlyRelationsD[OF assms(1), of r] changedOnlyRelationsD[OF assms(2), of r]
    show ?thesis by metis
  qed
qed

lemma changedOnlyRelations_keeps_name:
  assumes "changedOnlyRelations ms ms'" and "f_relationName (fieldAt ms r) \<noteq> None"
  shows "f_relationName (fieldAt ms' r) \<noteq> None"
  using changedOnlyRelationsD[OF assms(1), of r] assms(2) by auto

lemma changedOnlyRelations_setField:
  assumes "f_relationName (fieldAt ms r) \<noteq> None" and "f_relationName f \<noteq> None"
  shows "changedOnlyRelations ms (setField ms r f)"
  unfolding changedOnlyRelations_def
  using assms by (auto simp: length_setField fields_length_setField fieldAt_setField)

lemma array_sort_pair:
  "array_sort cmp [a, b] = (if cmp a b \<le> 0 then [a, b] else [b, a])"
  by (simp add: array_sort_def)

lemma generateJoinFields_changed:
  assumes "generateJoinFields lc (a, b) ms = Inr (fs, ms')"
      and "f_relationName (fieldAt ms a) \<noteq> None" and "f_relationName (fieldAt ms b) \<noteq> None"
  shows "changedOnlyRelations ms ms'"
proof -
  define srt where "srt = sorted_js (\<lambda>x y. lc (f_type (fieldAt ms x)) (f_type (fieldAt ms y))) [a, b]"
  define A where "A = srt ! 0"
  define B where "B = srt ! 1"
  have AB: "(A = a \<and> B = b) \<or> (A = b \<and> B = a)"
    by (simp add: A_def B_def srt_def sorted_js_def array_sort_pair)
  then have nA: "f_relationName (fieldAt ms A) \<noteq> None" and nB: "f_relationName (fieldAt ms B) \<noteq> None"
    using assms(2,3) by auto
  define m1 where "m1 = setField ms A ((fieldAt ms A)
            \<lparr>f_type := f_type (fieldAt ms A) @ ''To'' @ f_type (fieldAt ms B), f_isList := True,
             f_relationName := Some (f_type (fieldAt ms B) @ ''To'' @ (f_type (fieldAt ms A) @ ''To'' @ f_type (fieldAt ms B))),
             f_relationFromFields := Some [], f_relationToFields := Some []\<rparr>)"
  define m2 where "m2 = setField m1 B ((fieldAt m1 B)
            \<lparr>f_type := f_type (fieldAt ms A) @ ''To'' @ f_type (fieldAt ms B), f_isList := True,
             f_relationName := Some (f_type (fieldAt ms A) @ ''To'' @ (f_type (fieldAt ms A) @ ''To'' @ f_type (fieldAt ms B)))\<rparr>)"
  define m3 where "m3 = setField m2 A ((fieldAt m2 A)
            \<lparr>f_relationFromFields := Some [], f_relationToFields := Some []\<rparr>)"
  have c1: "changedOnlyRelations ms m1"
    unfolding m1_def by (rule changedOnlyRelations_setField[OF nA]) simp
  have c2: "changedOnlyRelations m1 m2"
    unfolding m2_def
    by (rule changedOnlyRelations_setField[OF changedOnlyRelations_keeps_name[OF c1 nB]]) simp
  have nA2: "f_relationName (fieldAt m2 A) \<noteq> None"
    using changedOnlyRelations_keeps_name[OF changedOnlyRelations_trans[OF c1 c2] nA] .
  have c3: "changedOnlyRelations m2 m3"
    unfolding m3_def
    by (rule changedOnlyRelations_setField[OF nA2]) (simp add: nA2)
  have "ms' = m3"
    using assms(1)
    unfolding generateJoinFields_def Let_def fst_conv snd_conv
      srt_def[symmetric] A_def[symmetric] B_def[symmetric]
      m1_def[symmetric] m2_def[symmetric] m3_def[symmetric]
    by (auto split: sum.splits)
  then show ?thesis
    using changedOnlyRelations_trans[OF changedOnlyRelations_trans[OF c1 c2] c3] by simp
qed


lemma generateModels_changed:
  assumes "\<forall>r \<in> set refs. f_relationName (fieldAt ms r) \<noteq> None"
      and "generateModels lc refs ms tabs = Inr (tabs', ms')"
  shows "changedOnlyRelations ms ms'"
  using assms
proof (induction lc refs ms tabs rule: generateModels.induct)
  case (1 lc models manyToManyTables)
  then show ?case by (simp add: changedOnlyRelations_refl)
next
  case (2 lc manyFirst manyToManyFields models manyToManyTables)
  show ?case
  proof (cases "find (\<lambda>field. f_relationName (fieldAt models field)
                          = f_relationName (fieldAt models manyFirst)) manyToManyFields")
    case None
    with "2.prems"(2) show ?thesis by (simp add: changedOnlyRelations_refl)
  next
    case (Some manySecond)
    then have sec: "manySecond \<in> set manyToManyFields"
      by (auto simp: find_Some_iff)
    show ?thesis
    proof (cases "generateJoinFields lc (manyFirst, manySecond) models")
      case (Inl e)
      with "2.prems"(2) Some show ?thesis by (simp add: Let_def)
    next
      case (Inr p)
      obtain joinFields models1 where p: "p = (joinFields, models1)"
        by (cases p)
      have n1: "f_relationName (fieldAt models manyFirst) \<noteq> None"
        and n2: "f_relationName (fieldAt models manySecond) \<noteq> None"
        using "2.prems"(1) sec by auto
      have c: "changedOnlyRelations models models1"
        using generateJoinFields_changed[OF Inr[unfolded p] n1 n2] .
      let ?rest = "filter (\<lambda>field. f_relationName (fieldAt models1 field)
                                       \<noteq> f_relationName (fieldAt models1 manyFirst)) manyToManyFields"
      let ?tabs = "manyToManyTables @
                      [\<lparr>m_name = f_type (fieldAt models manySecond) @ ''To'' @ f_type (fieldAt models manyFirst),
                        m_dbName = Some (''_'' @ tpl (f_relationName (fieldAt models manyFirst))),
                        m_fields = joinFields, m_primaryKey = None, m_uniqueIndexes = []\<rparr>]"
      have pre: "\<forall>r \<in> set ?rest. f_relationName (fieldAt models1 r) \<noteq> None"
        using "2.prems"(1) changedOnlyRelations_keeps_name[OF c] by auto
      have run: "generateModels lc ?rest models1 ?tabs = Inr (tabs', ms')"
        using "2.prems"(2) Some Inr p by (simp add: Let_def)
      have "changedOnlyRelations models1 ms'"
        using "2.IH"[OF Some refl refl Inr p[symmetric] pre run] .
      with c show ?thesis by (rule changedOnlyRelations_trans)
    qed
  qed
qed


lemma extractManyToManyModels_changed:
  assumes "extractManyToManyModels lc models = Inr (joins, models')"
  shows "changedOnlyRelations models models'"
proof (cases "filterManyToManyRelationFields models = []")
  case True
  with assms show ?thesis
    by (simp add: extractManyToManyModels_def changedOnlyRelations_refl)
next
  case False
  have "\<forall>r \<in> set (filterManyToManyRelationFields models). f_relationName (fieldAt models r) \<noteq> None"
    by (auto simp: filterManyToManyRelationFields_def Let_def truthy_def)
  moreover have "generateModels lc (filterManyToManyRelationFields models) models [] = Inr (joins, models')"
    using assms False by (simp add: extractManyToManyModels_def)
  ultimately show ?thesis
    by (rule generateModels_changed)
qed

lemma changedOnlyRelations_keeps_field:
  assumes "changedOnlyRelations ms ms'" and "m \<in> set ms" and "f \<in> set (m_fields m)"
      and "f_relationName f = None"
  shows "\<exists>m' \<in> set ms'. f \<in> set (m_fields m')"
proof -
  from assms(2) obtain i where i: "i < length ms" "ms ! i = m"
    by (auto simp: in_set_conv_nth)
  from assms(3) obtain j where j: "j < length (m_fields m)" "m_fields m ! j = f"
    by (auto simp: in_set_conv_nth)
  have at: "fieldAt ms (i, j) = f"
    using i j by (simp add: fieldAt_def)
  from changedOnlyRelationsD[OF assms(1), of "(i, j)"] at assms(4)
  have "fieldAt ms' (i, j) = f"
    by auto
  moreover have "i < length ms'" and "j < length (m_fields (ms' ! i))"
    using assms(1) i j by (simp_all add: changedOnlyRelations_def)
  ultimately have "ms' ! i \<in> set ms'" and "f \<in> set (m_fields (ms' ! i))"
    by (auto simp: fieldAt_def in_set_conv_nth)
  then show ?thesis by blast
qed

lemma mapG_Inl:
  assumes "x \<in> set xs" and "fst (g x) = Inl e"
  shows "\<exists>e'. fst (mapG g xs) = Inl e'"
  using assms(1)
proof (induction xs)
  case Nil
  then show ?case by simp
next
  case (Cons a xs)
  show ?case
  proof (cases "fst (g a)")
    case (Inl e1)
    then show ?thesis by (simp add: bindG_def)
  next
    case (Inr y)
    show ?thesis
    proof (cases "x = a")
      case True
      with Inr assms(2) show ?thesis by simp
    next
      case False
      with Cons obtain e' where "fst (mapG g xs) = Inl e'" by auto
      with Inr show ?thesis by (simp add: bindG_def fst_adding)
    qed
  qed
qed

lemma bindG_Inl_ex: "\<exists>e. fst m = Inl e \<Longrightarrow> \<exists>e. fst (bindG m k) = Inl e"
  by (auto simp: bindG_def)

lemma fst_throw: "fst (throw e) = Inl e"
  by (simp add: throw_def)

lemma bytes_column_mysql:
  assumes "f_kind f = Scalar" and "f_type f = ''Bytes''"
  shows "prismaToDrizzleColumn_mysql f enums
         = throw (GeneratorError (''Drizzle ORM doesn'' @ SQ @ ''t support binary data type for MySQL''))"
  using assms
  by (simp add: prismaToDrizzleColumn_mysql_def Let_def prismaToDrizzleType_mysql_def bindG_throw)

lemma bytes_column_pg:
  assumes "f_kind f = Scalar" and "toLowerCase (f_type f) = ''bytes''"
  shows "prismaToDrizzleColumn_pg f nativeType
         = throw (GeneratorError (''Drizzle ORM doesn'' @ SQ @ ''t support binary data type for PostgreSQL''))"
  using assms
  by (simp add: prismaToDrizzleColumn_pg_def Let_def prismaToDrizzleType_pg_def bindG_throw)

lemma table_mysql_bytes:
  assumes "f \<in> set (m_fields T)" and "f_kind f = Scalar" and "f_type f = ''Bytes''"
  shows "\<exists>e. fst (table_mysql enums T) = Inl e"
proof -
  have "fst (bindG (prismaToDrizzleColumn_mysql f enums) (\<lambda>c. ret (f_name f, c)))
        = Inl (GeneratorError (''Drizzle ORM doesn'' @ SQ @ ''t support binary data type for MySQL''))"
    by (simp add: bytes_column_mysql[OF assms(2,3)] bindG_throw fst_throw)
  from mapG_Inl[where g = "\<lambda>e. bindG (prismaToDrizzleColumn_mysql e enums) (\<lambda>c. ret (f_name e, c))",
                 OF assms(1) this]
  have "\<exists>e. fst (columnEntries_mysql enums (m_fields T)) = Inl e"
    unfolding columnEntries_mysql_def by (rule bindG_Inl_ex)
  then show ?thesis
    unfolding table_mysql_def Let_def by (rule bindG_Inl_ex)
qed

lemma table_pg_bytes:
  assumes "f \<in> set (m_fields T)" and "f_kind f = Scalar" and "toLowerCase (f_type f) = ''bytes''"
  shows "\<exists>e. fst (table_pg datamodel T) = Inl e"
proof (cases "find (\<lambda>m. am_name m = m_name T) datamodel")
  case None
  then show ?thesis by (simp add: table_pg_def fst_throw)
next
  case (Some modelAst)
  have "\<exists>e. fst (columnEntry_pg modelAst f) = Inl e"
    by (cases "find (\<lambda>p. af_name p = f_name f) (am_properties modelAst)")
      (simp_all add: columnEntry_pg_def Let_def bytes_column_pg[OF assms(2,3)] bindG_throw fst_throw)
  then obtain e where "fst (columnEntry_pg modelAst f) = Inl e" ..
  from mapG_Inl[where g = "columnEntry_pg modelAst", OF assms(1) this]
  have "\<exists>e. fst (columnEntries_pg modelAst (m_fields T)) = Inl e"
    unfolding columnEntries_pg_def by (rule bindG_Inl_ex)
  then have "\<exists>e. fst (bindG (columnEntries_pg modelAst (m_fields T)) k) = Inl e" for k
    by (rule bindG_Inl_ex)
  then show ?thesis
    unfolding table_pg_def Some option.case Let_def .
qed

lemma fst_finish_Inl: "fst run = Inl e \<Longrightarrow> fst (finish lc core st run) = Inl e"
  by (simp add: finish_def Let_def)

lemma pgEnumsLoop_succeeds: "\<exists>y. fst (pgEnumsLoop es) = Inr y"
  by (induction es) (auto simp: ret_def bindG_def fst_adding)

lemma generateMySqlSchema_bytes:
  assumes "m \<in> set (o_models options)" and "f \<in> set (m_fields m)" and "f_relationName f = None"
      and "f_kind f = Scalar" and "f_type f = ''Bytes''"
  shows "\<exists>e. fst (generateMySqlSchema lc options st) = Inl e"
proof (cases "extractManyToManyModels lc (o_models options)")
  case (Inl e)
  then show ?thesis
    by (simp add: generateMySqlSchema_def bindG_lift_Inl fst_finish_Inl fst_throw)
next
  case (Inr p)
  obtain joins models' where p: "p = (joins, models')" by (cases p)
  from changedOnlyRelations_keeps_field[OF extractManyToManyModels_changed[OF Inr[unfolded p]] assms(1,2,3)]
  obtain m' where m': "m' \<in> set (models' @ joins)" "f \<in> set (m_fields m')"
    by auto
  from table_mysql_bytes[OF m'(2) assms(4,5)] obtain e where "fst (table_mysql (o_enums options) m') = Inl e"
    by blast
  from mapG_Inl[where g = "table_mysql (o_enums options)", OF m'(1) this]
  have "\<exists>e. fst (bindG (mapG (table_mysql (o_enums options)) (models' @ joins))
                   (\<lambda>results. ret (blocksOf results))) = Inl e"
    by (rule bindG_Inl_ex)
  then show ?thesis
    by (auto simp: generateMySqlSchema_def Inr p bindG_lift_Inr fst_finish_Inl)
qed

lemma generatePgSchema_bytes:
  assumes "m \<in> set (o_models options)" and "f \<in> set (m_fields m)" and "f_relationName f = None"
      and "f_kind f = Scalar" and "toLowerCase (f_type f) = ''bytes''"
  shows "\<exists>e. fst (generatePgSchema lc options st) = Inl e"
proof (cases "extractManyToManyModels lc (o_models options)")
  case (Inl e)
  then show ?thesis
    by (simp add: generatePgSchema_def bindG_lift_Inl fst_finish_Inl fst_throw)
next
  case (Inr p)
  obtain joins models' where p: "p = (joins, models')" by (cases p)
  from changedOnlyRelations_keeps_field[OF extractManyToManyModels_changed[OF Inr[unfolded p]] assms(1,2,3)]
  obtain m' where m': "m' \<in> set (models' @ joins)" "f \<in> set (m_fields m')"
    by auto
  from table_pg_bytes[OF m'(2) assms(4,5)] obtain e where "fst (table_pg (o_datamodel options) m') = Inl e"
    by blast
  from mapG_Inl[where g = "table_pg (o_datamodel options)", OF m'(1) this]
  have "\<exists>e. fst (bindG (mapG (table_pg (o_datamodel options)) (models' @ joins))
                   (\<lambda>results. ret (pgEnums @ blocksOf results))) = Inl e" for pgEnums
    by (rule bindG_Inl_ex)
  moreover obtain y where "fst (pgEnumsLoop (o_enums options)) = Inr y"
    using pgEnumsLoop_succeeds by blast
  ultimately have "\<exists>e. fst (bindG (pgEnumsLoop (o_enums options)) (\<lambda>pgEnums.
             bindG (mapG (table_pg (o_datamodel options)) (models' @ joins))
               (\<lambda>results. ret (pgEnums @ blocksOf results)))) = Inl e"
    by (simp add: bindG_def fst_adding)
  then show ?thesis
    by (auto simp: generatePgSchema_def Inr p bindG_lift_Inr fst_finish_Inl)
qed

lemma succeeds_ret: "succeeds (ret x)"
  by (simp add: succeeds_def ret_def)

lemma succeeds_adding: "succeeds (adding l m) = succeeds m"
  by (simp add: succeeds_def fst_adding)

lemma succeeds_bindG: "succeeds m \<Longrightarrow> (\<And>x. succeeds (k x)) \<Longrightarrow> succeeds (bindG m k)"
  by (auto simp: succeeds_def bindG_def fst_adding)

lemma succeeds_mapG: "(\<And>x. x \<in> set xs \<Longrightarrow> succeeds (g x)) \<Longrightarrow> succeeds (mapG g xs)"
  by (induction xs) (auto intro!: succeeds_bindG succeeds_ret)

lemma succeeds_type_sqlite: "succeeds (prismaToDrizzleType_sqlite ty col)"
  by (simp add: prismaToDrizzleType_sqlite_def Let_def succeeds_adding succeeds_ret)

lemma succeeds_modifiers_sqlite:
  assumes "\<forall>args. f_default f \<noteq> Some (DefCall ''dbgenerated'' args)"
  shows "succeeds (addColumnModifiers_sqlite f column)"
proof (cases "truthyDefault (f_default f)")
  case False
  then show ?thesis by (simp add: addColumnModifiers_sqlite_def Let_def succeeds_ret)
next
  case True
  then obtain d where d: "f_default f = Some d" by (cases "f_default f") auto
  show ?thesis
    using assms True
    by (cases d) (auto simp: addColumnModifiers_sqlite_def Let_def d succeeds_adding succeeds_ret)
qed

lemma succeeds_column_sqlite:
  assumes "\<forall>args. f_default f \<noteq> Some (DefCall ''dbgenerated'' args)"
  shows "succeeds (prismaToDrizzleColumn_sqlite f)"
  unfolding prismaToDrizzleColumn_sqlite_def Let_def
  by (rule succeeds_bindG[OF succeeds_type_sqlite])
    (auto split: option.splits intro!: succeeds_ret succeeds_bindG succeeds_modifiers_sqlite[OF assms])

lemma succeeds_uniqueIndexDecls: "succeeds (uniqueIndexDecls esc T)"
  by (simp add: uniqueIndexDecls_def succeeds_adding succeeds_ret)

lemma succeeds_primaryKeyDecls: "succeeds (primaryKeyDecls esc T)"
  by (cases "m_primaryKey T") (simp_all add: primaryKeyDecls_def Let_def succeeds_adding succeeds_ret)

lemma plainField_default:
  assumes "plainField f"
  shows "\<forall>args. f_default f \<noteq> Some (DefCall ''dbgenerated'' args)"
  using assms by (auto simp: plainField_def)

lemma succeeds_table_sqlite:
  assumes "\<forall>f \<in> set (m_fields T). plainField f"
  shows "succeeds (table_sqlite T)"
proof -
  have rel: "relFieldsOf T = []"
    using assms by (auto simp: relFieldsOf_def plainField_def filter_empty_conv)
  have cols: "succeeds (columnEntries_sqlite (m_fields T))"
    unfolding columnEntries_sqlite_def
    using assms
    by (auto intro!: succeeds_bindG succeeds_mapG succeeds_ret succeeds_column_sqlite
               plainField_default)
  show ?thesis
    unfolding table_sqlite_def Let_def rel
    by (auto intro!: succeeds_bindG cols succeeds_ret succeeds_uniqueIndexDecls succeeds_primaryKeyDecls
             simp: rqbRelation_def)
qed

lemma fieldAt_in_fields:
  assumes "r \<in> set (flatFieldRefs ms)"
  shows "fst r < length ms \<and> fieldAt ms r \<in> set (m_fields (ms ! fst r))"
  using assms by (auto simp: flatFieldRefs_def fieldAt_def)

lemma no_manyToMany_fields:
  assumes "\<forall>m \<in> set ms. \<forall>f \<in> set (m_fields m). \<not> truthy (f_relationName f)"
  shows "filterManyToManyRelationFields ms = []"
proof -
  have "\<not> truthy (f_relationName (fieldAt ms r))" if "r \<in> set (flatFieldRefs ms)" for r
    using fieldAt_in_fields[OF that] assms by (metis nth_mem)
  then have "filter (\<lambda>field. truthy (f_relationName (fieldAt ms field))) (flatFieldRefs ms) = []"
    by (simp add: filter_empty_conv)
  then show ?thesis
    unfolding filterManyToManyRelationFields_def Let_def by simp
qed

lemma generateSQLiteSchema_plain:
  assumes "plainSchema options"
  shows "\<exists>out. fst (generateSQLiteSchema lc options st) = Inr out"
proof -
  from assms have assms: "\<forall>m \<in> set (o_models options). \<forall>f \<in> set (m_fields m). plainField f"
    by (simp add: plainSchema_def list_all_iff)
  have "filterManyToManyRelationFields (o_models options) = []"
    using assms by (intro no_manyToMany_fields) (simp add: plainField_def)
  then have ex: "extractManyToManyModels lc (o_models options) = Inr ([], o_models options)"
    by (simp add: extractManyToManyModels_def)
  have "succeeds (mapG table_sqlite (o_models options))"
    using assms by (intro succeeds_mapG succeeds_table_sqlite) simp
  then have "succeeds (bindG (mapG table_sqlite (o_models options)) (\<lambda>results. ret (blocksOf results)))"
    by (rule succeeds_bindG) (rule succeeds_ret)
  then show ?thesis
    by (auto simp: generateSQLiteSchema_def ex bindG_lift_Inr finish_def Let_def succeeds_def)
qed
lemma blob_column_sqlite:
  assumes "toLowerCase ty = ''bytes''"
  shows "prismaToDrizzleType_sqlite ty colDbName
        = adding [Dialect ''blob'']
            (ret (Some (call2 ''blob'' colDbName (''mode: '' @ SQ @ ''buffer'' @ SQ))))"
  using assms by (simp add: prismaToDrizzleType_sqlite_def Let_def)


text \<open>
  C5. A scalar field of type \<open>Bytes\<close>: on MySQL and Postgres its column raises the
  GeneratorError about the binary data type, and a run on any schema that has such a
  field returns an error and no output text; on SQLite the type maps to a \<open>blob\<close>
  column, and a run on a schema of plain scalar fields, of whatever types, returns an
  output text.
\<close>

theorem C5_binary_fields:
  "(f_kind f = Scalar \<and> f_type f = ''Bytes'' \<longrightarrow>
      prismaToDrizzleColumn_mysql f enums
        = throw (GeneratorError (''Drizzle ORM doesn'' @ SQ @ ''t support binary data type for MySQL''))
      \<and> (m \<in> set (o_models options) \<and> f \<in> set (m_fields m) \<and> f_relationName f = None
            \<longrightarrow> (\<exists>e. fst (generateMySqlSchema lc options st) = Inl e)))
   \<and> (f_kind f = Scalar \<and> toLowerCase (f_type f) = ''bytes'' \<longrightarrow>
      prismaToDrizzleColumn_pg f nativeType
        = throw (GeneratorError (''Drizzle ORM doesn'' @ SQ @ ''t support binary data type for PostgreSQL''))
      \<and> (m \<in> set (o_models options) \<and> f \<in> set (m_fields m) \<and> f_relationName f = None
            \<longrightarrow> (\<exists>e. fst (generatePgSchema lc options st) = Inl e)))
   \<and> (toLowerCase (f_type f) = ''bytes'' \<longrightarrow>
      prismaToDrizzleType_sqlite (f_type f) colDbName
        = adding [Dialect ''blob'']
            (ret (Some (call2 ''blob'' colDbName (''mode: '' @ SQ @ ''buffer'' @ SQ))))
      \<and> (plainSchema options \<longrightarrow> (\<exists>out. fst (generateSQLiteSchema lc options st) = Inr out)))"
  using bytes_column_mysql[of f enums] generateMySqlSchema_bytes[of m options f lc st]
    bytes_column_pg[of f nativeType] generatePgSchema_bytes[of m options f lc st]
    blob_column_sqlite[of "f_type f" colDbName] generateSQLiteSchema_plain[of options lc st]
  by blast

theorem C5_binary_witness:
  "f_kind fileData = Scalar \<and> f_type fileData = ''Bytes'' \<and> toLowerCase (f_type fileData) = ''bytes''
   \<and> modelFile \<in> set (o_models (withAst [modelFile])) \<and> fileData \<in> set (m_fields modelFile)
   \<and> f_relationName fileData = None
   \<and> plainSchema (withAst [modelFile])
   \<and> (\<exists>e. fst (generateMySqlSchema codeUnitCompare (withAst [modelFile]) mySqlImportsInit) = Inl e)
   \<and> (\<exists>e. fst (generatePgSchema codeUnitCompare (withAst [modelFile]) pgImportsInit) = Inl e)
   \<and> (\<exists>out. fst (generateSQLiteSchema codeUnitCompare (withAst [modelFile]) sqliteImportsInit) = Inr out)
   \<and> fst (generateMySqlSchema codeUnitCompare (withAst [modelFile]) mySqlImportsInit)
       = Inl (GeneratorError (''Drizzle ORM doesn'' @ SQ @ ''t support binary data type for MySQL''))
   \<and> fst (generatePgSchema codeUnitCompare (withAst [modelFile]) pgImportsInit)
       = Inl (GeneratorError (''Drizzle ORM doesn'' @ SQ @ ''t support binary data type for PostgreSQL''))
   \<and> fst (generateSQLiteSchema codeUnitCompare (withAst [modelFile]) sqliteImportsInit)
       = Inr fileSqliteOutput"
proof -
  have k: "f_kind fileData = Scalar" and ty: "f_type fileData = ''Bytes''"
    and lo: "toLowerCase (f_type fileData) = ''bytes''"
    and m1: "modelFile \<in> set (o_models (withAst [modelFile]))"
    and m2: "fileData \<in> set (m_fields modelFile)"
    and m3: "f_relationName fileData = None"
    and pl: "plainSchema (withAst [modelFile])"
    by code_simp+
  have v1: "fst (generateMySqlSchema codeUnitCompare (withAst [modelFile]) mySqlImportsInit)
       = Inl (GeneratorError (''Drizzle ORM doesn'' @ SQ @ ''t support binary data type for MySQL''))"
    by code_simp
  have v2: "fst (generatePgSchema codeUnitCompare (withAst [modelFile]) pgImportsInit)
       = Inl (GeneratorError (''Drizzle ORM doesn'' @ SQ @ ''t support binary data type for PostgreSQL''))"
    by code_simp
  have v3: "fst (generateSQLiteSchema codeUnitCompare (withAst [modelFile]) sqliteImportsInit)
       = Inr fileSqliteOutput"
    by code_simp
  note t = C5_binary_fields[where f = fileData and m = modelFile and options = "withAst [modelFile]"
                              and lc = codeUnitCompare]
  have e1: "\<exists>e. fst (generateMySqlSchema codeUnitCompare (withAst [modelFile]) mySqlImportsInit) = Inl e"
    by (rule t[THEN conjunct1, THEN mp, OF conjI[OF k ty], THEN conjunct2, THEN mp,
               OF conjI[OF m1 conjI[OF m2 m3]]])
  have e2: "\<exists>e. fst (generatePgSchema codeUnitCompare (withAst [modelFile]) pgImportsInit) = Inl e"
    by (rule t[THEN conjunct2, THEN conjunct1, THEN mp, OF conjI[OF k lo], THEN conjunct2, THEN mp,
               OF conjI[OF m1 conjI[OF m2 m3]]])
  have e3: "\<exists>out. fst (generateSQLiteSchema codeUnitCompare (withAst [modelFile]) sqliteImportsInit) = Inr out"
    by (rule t[THEN conjunct2, THEN conjunct2, THEN mp, OF lo, THEN conjunct2, THEN mp, OF pl])
  show ?thesis
    by (intro conjI k ty lo m1 m2 m3 pl e1 e2 e3 v1 v2 v3)
qed


section \<open>The scenario of the specification\<close>

text \<open>
  C9, as the claim states it: for \<open>User { id Int @id @default(autoincrement()); email
  String @unique }\<close> the Postgres output contains \<open>id: serial('id').primaryKey()\<close> and
  \<open>email: text('email').unique()\<close>. Both fields are required (neither type carries a
  \<open>?\<close>, and an id field cannot be optional), so \<open>.notNull()\<close> comes first and neither
  text occurs in the output.
\<close>

theorem C9_scenario_lacks_the_stated_columns:
  "fst (generatePgSchema codeUnitCompare scenarioOptions pgImportsInit) = Inr scenarioOutput
   \<and> \<not> sublist (''id: serial('' @ SQ @ ''id'' @ SQ @ '').primaryKey()'') scenarioOutput
   \<and> \<not> sublist (''email: text('' @ SQ @ ''email'' @ SQ @ '').unique()'') scenarioOutput"
  by code_simp

text \<open>
  C9, amended: the output contains \<open>id: serial('id').notNull().primaryKey()\<close> and
  \<open>email: text('email').notNull().unique()\<close>, and the import line lists \<open>pgTable\<close>,
  \<open>serial\<close> and \<open>text\<close>. The whole output is \<open>scenarioOutput\<close>.
\<close>

theorem C9_scenario_output:
  "fst (generatePgSchema codeUnitCompare scenarioOptions pgImportsInit) = Inr scenarioOutput
   \<and> sublist (''id: serial('' @ SQ @ ''id'' @ SQ @ '').notNull().primaryKey()'') scenarioOutput
   \<and> sublist (''email: text('' @ SQ @ ''email'' @ SQ @ '').notNull().unique()'') scenarioOutput
   \<and> sublist (''import { pgTable, serial, text } from '' @ SQ @ ''drizzle-orm/pg-core'' @ SQ)
         scenarioOutput"
  by code_simp

end
